theory Spec2Isabelle
  imports Complex_Main "HOL-Library.Sublist"
begin

section \<open>Python built-ins used by the harness\<close>

text \<open>
  Strings are byte strings (\<open>char list\<close>). The external client prints ASCII, and the
  built-ins below are the ASCII behaviour of the Python ones: a byte outside ASCII is
  never whitespace, a digit or a letter here.
\<close>

text \<open>Truthiness of an \<open>Optional[str]\<close>: \<open>None\<close> and the empty string are false.\<close>

fun truthy :: "string option \<Rightarrow> bool" where
  "truthy None = False"
| "truthy (Some s) = (s \<noteq> [])"

text \<open>\<open>str.isspace\<close> on one ASCII character: TAB, LF, VT, FF, CR, FS, GS, RS, US, space.\<close>

definition py_isspace :: "char \<Rightarrow> bool" where
  "py_isspace c = (c \<in> set [CHR 0x09, CHR 0x0A, CHR 0x0B, CHR 0x0C, CHR 0x0D,
                              CHR 0x1C, CHR 0x1D, CHR 0x1E, CHR 0x1F, CHR 0x20])"

text \<open>\<open>s.strip(chars)\<close>: drop the characters of \<open>chars\<close> from both ends.\<close>

definition py_strip_chars :: "string \<Rightarrow> string \<Rightarrow> string" where
  "py_strip_chars chars s =
     rev (dropWhile (\<lambda>c. c \<in> set chars) (rev (dropWhile (\<lambda>c. c \<in> set chars) s)))"

text \<open>\<open>s.strip()\<close>: drop whitespace from both ends.\<close>

definition py_strip :: "string \<Rightarrow> string" where
  "py_strip s = rev (dropWhile py_isspace (rev (dropWhile py_isspace s)))"

text \<open>\<open>s.split(sep)\<close> for a one-character separator; the result is never empty.\<close>

fun py_split :: "char \<Rightarrow> string \<Rightarrow> string list" where
  "py_split sep [] = [[]]"
| "py_split sep (c # cs) =
     (if c = sep then [] # py_split sep cs
      else (case py_split sep cs of
              [] \<Rightarrow> [[c]]
            | w # ws \<Rightarrow> (c # w) # ws))"

text \<open>\<open>sep.join(xs)\<close>.\<close>

fun py_join :: "string \<Rightarrow> string list \<Rightarrow> string" where
  "py_join sep [] = []"
| "py_join sep [x] = x"
| "py_join sep (x # y # ys) = x @ sep @ py_join sep (y # ys)"

text \<open>\<open>s.startswith(p)\<close>.\<close>

definition py_startswith :: "string \<Rightarrow> string \<Rightarrow> bool" where
  "py_startswith s p = (take (length p) s = p)"

text \<open>
  \<open>s.zfill(width)\<close>: zeros on the left up to \<open>width\<close>; a leading sign stays in front
  of the zeros.
\<close>

definition py_zfill :: "nat \<Rightarrow> string \<Rightarrow> string" where
  "py_zfill width s =
     (if width \<le> length s then s
      else (case s of
              c # cs \<Rightarrow>
                (if c = CHR ''+'' \<or> c = CHR ''-''
                 then c # replicate (width - length s) CHR ''0'' @ cs
                 else replicate (width - length s) CHR ''0'' @ s)
            | [] \<Rightarrow> replicate width CHR ''0''))"

text \<open>\<open>s[-n:]\<close> for a positive \<open>n\<close>: the last \<open>n\<close> characters (all of \<open>s\<close> when shorter).\<close>

definition py_last_n :: "nat \<Rightarrow> string \<Rightarrow> string" where
  "py_last_n n s = drop (length s - n) s"

text \<open>\<open>s.lower()\<close> and \<open>s.upper()\<close> on ASCII letters.\<close>

definition upper_letters :: string where
  "upper_letters = ''ABCDEFGHIJKLMNOPQRSTUVWXYZ''"

definition lower_letters :: string where
  "lower_letters = ''abcdefghijklmnopqrstuvwxyz''"

definition py_lower :: "string \<Rightarrow> string" where
  "py_lower s = map (\<lambda>c. case map_of (zip upper_letters lower_letters) c of
                            Some d \<Rightarrow> d | None \<Rightarrow> c) s"

definition py_upper :: "string \<Rightarrow> string" where
  "py_upper s = map (\<lambda>c. case map_of (zip lower_letters upper_letters) c of
                            Some d \<Rightarrow> d | None \<Rightarrow> c) s"

text \<open>\<open>str(n)\<close> for an integer: decimal digits, a minus sign when negative.\<close>

definition digit_char :: "nat \<Rightarrow> char" where
  "digit_char d = ''0123456789'' ! d"

fun str_nat :: "nat \<Rightarrow> string" where
  "str_nat n = (if n < 10 then [digit_char n] else str_nat (n div 10) @ [digit_char (n mod 10)])"

declare str_nat.simps [simp del]

definition py_str :: "int \<Rightarrow> string" where
  "py_str i = (if i < 0 then CHR ''-'' # str_nat (nat (- i)) else str_nat (nat i))"

text \<open>
  \<open>int(s, base)\<close> for base 10 and 16. The value of a digit character, as Python
  reads it: 0-9, then a-z and A-Z for 10-35.
\<close>

fun index_of :: "char \<Rightarrow> string \<Rightarrow> nat option" where
  "index_of c [] = None"
| "index_of c (d # ds) =
     (if c = d then Some 0 else map_option Suc (index_of c ds))"

definition digit_val :: "char \<Rightarrow> nat option" where
  "digit_val c =
     (case index_of c ''0123456789abcdefghijklmnopqrstuvwxyz'' of
        Some v \<Rightarrow> Some v
      | None \<Rightarrow> map_option (\<lambda>v. v + 10) (index_of c upper_letters))"

text \<open>
  The digits of a literal, most significant first, with the underscores of PEP 515: one
  underscore may stand between two digits, never first, last or doubled. \<open>prev_us\<close> says
  that the previous character was an underscore; \<open>acc\<close> is the value read so far.
  \<open>None\<close> is Python's \<open>ValueError\<close>.
\<close>

fun parse_digits :: "nat \<Rightarrow> bool \<Rightarrow> nat \<Rightarrow> string \<Rightarrow> nat option" where
  "parse_digits base prev_us acc [] = (if prev_us then None else Some acc)"
| "parse_digits base prev_us acc (c # cs) =
     (if c = CHR ''_'' then
        (if prev_us then None else parse_digits base True acc cs)
      else (case digit_val c of
              None \<Rightarrow> None
            | Some v \<Rightarrow>
                (if v < base then parse_digits base False (acc * base + v) cs else None)))"

text \<open>
  The unsigned part: for base 16 an optional \<open>0x\<close>/\<open>0X\<close> prefix, after which one
  underscore is allowed; then at least one digit, not starting with an underscore.
\<close>

definition parse_unsigned :: "nat \<Rightarrow> string \<Rightarrow> nat option" where
  "parse_unsigned base s =
     (let body =
        (case s of
           c0 # c1 # r \<Rightarrow>
             (if base = 16 \<and> c0 = CHR ''0'' \<and> (c1 = CHR ''x'' \<or> c1 = CHR ''X'')
              then (case r of u # r' \<Rightarrow> (if u = CHR ''_'' then r' else r) | [] \<Rightarrow> r)
              else s)
         | _ \<Rightarrow> s)
      in (case body of
            [] \<Rightarrow> None
          | c # _ \<Rightarrow> (if c = CHR ''_'' then None else parse_digits base False 0 body)))"

text \<open>\<open>int(s, base)\<close>: surrounding whitespace, an optional sign, the unsigned part.\<close>

definition py_int :: "string \<Rightarrow> nat \<Rightarrow> int option" where
  "py_int s base =
     (case py_strip s of
        [] \<Rightarrow> None
      | c # cs \<Rightarrow>
          (if c = CHR ''-'' then map_option (\<lambda>n. - int n) (parse_unsigned base cs)
           else if c = CHR ''+'' then map_option int (parse_unsigned base cs)
           else map_option int (parse_unsigned base (c # cs))))"

section \<open>AMM helper: the pricing formula\<close>

text \<open>
  \<open>UniswapV2Helper.get_amount_out\<close>. Python's \<open>//\<close> on integers is floor division, as
  \<open>div\<close> on \<open>int\<close> is.
\<close>

definition get_amount_out :: "int \<Rightarrow> int \<Rightarrow> int \<Rightarrow> int" where
  "get_amount_out amount_in reserve_in reserve_out =
     (if reserve_in = 0 \<or> reserve_out = 0 then 0
      else (let amount_in_with_fee = amount_in * 997;
                numerator = amount_in_with_fee * reserve_out;
                denominator = reserve_in * 1000 + amount_in_with_fee
            in if denominator > 0 then numerator div denominator else 0))"


text \<open>\<open>sub in s\<close> on strings: \<open>sub\<close> occurs in \<open>s\<close> as a contiguous run.\<close>

fun py_contains :: "string \<Rightarrow> string \<Rightarrow> bool" where
  "py_contains sub [] = (sub = [])"
| "py_contains sub (c # cs) = (prefix sub (c # cs) \<or> py_contains sub cs)"

text \<open>\<open>int(x)\<close> on a float: truncation towards zero.\<close>

definition py_trunc :: "real \<Rightarrow> int" where
  "py_trunc x = (if 0 \<le> x then \<lfloor>x\<rfloor> else \<lceil>x\<rceil>)"

section \<open>The world outside the harness\<close>

text \<open>
  Exceptions the harness's own code raises: the \<open>ValueError\<close> of \<open>int(s, base)\<close> on a
  string that is no literal (carrying the string and the base), the \<open>ValueError\<close> of the
  configuration loader (carrying its message), and the \<open>OverflowError\<close> of a float
  operation.
\<close>

datatype exn = ValueError_int string nat | ValueError string | OverflowError

text \<open>
  What \<open>subprocess.run\<close> does with one command line: it completes with a return code,
  standard output and standard error, it raises \<open>TimeoutExpired\<close>, or it raises another
  exception (carrying \<open>str(e)\<close>).
\<close>

datatype proc_outcome =
    Completed int string string
  | TimeoutExpired
  | OtherException string

datatype level = DEBUG | INFO | WARNING | ERROR

text \<open>
  What the harness does to the world, in order: a subprocess with its timeout in
  seconds, a \<open>time.sleep\<close>, a log line of the Command Executor. Log lines of the other
  components are not recorded: nothing reads them back.
\<close>

datatype event = Exec "string list" nat | Sleep nat | Log level string

record world =
  calls :: nat
  clock :: real
  trace :: "event list"

text \<open>
  Everything the harness cannot decide is a parameter. The outcome and the duration of
  the \<open>n\<close>-th subprocess of a run depend on \<open>n\<close> and on its command line; a negative
  duration counts as zero, so the clock never runs backwards. \<open>frame_file\<close> and
  \<open>frame_line\<close> are what \<open>inspect\<close> reports for the caller of the \<open>n\<close>-th subprocess.
  The float operations are parameters too: \<open>mul_095 x\<close> is \<open>int(x * 0.95)\<close>, and
  \<open>None\<close> when the conversion of \<open>x\<close> to a float raises \<open>OverflowError\<close>;
  \<open>true_div_raises a b\<close> says that \<open>a / b\<close> raises it. Python's limit on the digits of a
  decimal conversion is not modelled.
\<close>

record env =
  proc :: "nat \<Rightarrow> string list \<Rightarrow> proc_outcome"
  proc_time :: "nat \<Rightarrow> string list \<Rightarrow> real"
  frame_file :: "nat \<Rightarrow> string"
  frame_line :: "nat \<Rightarrow> int"
  mul_095 :: "int \<Rightarrow> int option"
  true_div_raises :: "int \<Rightarrow> int \<Rightarrow> bool"

definition log_line :: "level \<Rightarrow> string \<Rightarrow> world \<Rightarrow> world" where
  "log_line l msg w = w\<lparr>trace := trace w @ [Log l msg]\<rparr>"

definition sleep :: "nat \<Rightarrow> world \<Rightarrow> world" where
  "sleep n w = w\<lparr>clock := clock w + real n, trace := trace w @ [Sleep n]\<rparr>"

definition subprocess_run :: "env \<Rightarrow> string list \<Rightarrow> nat \<Rightarrow> world \<Rightarrow> proc_outcome \<times> world" where
  "subprocess_run e cmd timeout w =
     (proc e (calls w) cmd,
      w\<lparr>calls := Suc (calls w),
        clock := clock w + max 0 (proc_time e (calls w) cmd),
        trace := trace w @ [Exec cmd timeout]\<rparr>)"

section \<open>Command Executor (\<open>cast_interactor.py\<close>)\<close>

record cast =
  rpc_url :: string
  private_key :: string

text \<open>The command line \<open>run_cast_command\<close> assembles (lines 30-35).\<close>

definition full_command :: "cast \<Rightarrow> string list \<Rightarrow> string list" where
  "full_command c command =
     (let base = [''cast''] @ command @ [''--rpc-url'', rpc_url c]
      in if ''send'' \<in> set command \<or> ''call'' \<in> set command
         then (if ''send'' \<in> set command
               then base @ [''--private-key'', private_key c]
               else base)
         else base)"

text \<open>The prefix \<open>[file:line]\<close> of every log line of \<open>run_cast_command\<close> (lines 24-28).\<close>

definition caller_tag :: "env \<Rightarrow> nat \<Rightarrow> string" where
  "caller_tag e n =
     (let filename = last (py_split CHR ''/'' (frame_file e n));
          line_number = frame_line e n
      in ''['' @ filename @ '':'' @ py_str line_number @ ''] '')"

text \<open>
  \<open>run_cast_command\<close>. The parameter \<open>decode_output\<close> of the source is never read and
  is left out.
\<close>

definition run_cast_command :: "env \<Rightarrow> cast \<Rightarrow> string list \<Rightarrow> world \<Rightarrow> string option \<times> world" where
  "run_cast_command e c command w =
     (let tag = caller_tag e (calls w);
          fc = full_command c command;
          w1 = log_line DEBUG (tag @ ''Executing: '' @ py_join '' '' (take 3 fc) @ '' ...'') w
      in (case subprocess_run e fc 60 w1 of
            (Completed returncode out err, w2) \<Rightarrow>
              (if returncode \<noteq> 0
               then (None, log_line ERROR (tag @ ''Cast command failed: '' @ err) w2)
               else (let output = py_strip out
                     in (Some output, log_line DEBUG (tag @ ''Cast result: '' @ output) w2)))
          | (TimeoutExpired, w2) \<Rightarrow>
              (None, log_line ERROR (tag @ ''Cast command timed out'') w2)
          | (OtherException msg, w2) \<Rightarrow>
              (None, log_line ERROR (tag @ ''Error executing cast command: '' @ msg) w2)))"

text \<open>\<open>get_balance\<close>: the parse of line 62 is not guarded.\<close>

definition get_balance :: "env \<Rightarrow> cast \<Rightarrow> string \<Rightarrow> string \<Rightarrow> world \<Rightarrow> (exn + int) \<times> world" where
  "get_balance e c token_address account w =
     (case run_cast_command e c
             [''call'', token_address, ''balanceOf(address)(uint256)'', account] w of
        (result, w1) \<Rightarrow>
          (if truthy result
           then (case result of
                   Some r \<Rightarrow> (case py_int r 16 of
                                Some v \<Rightarrow> (Inr v, w1)
                              | None \<Rightarrow> (Inl (ValueError_int r 16), w1))
                 | None \<Rightarrow> (Inr 0, w1))
           else (Inr 0, w1)))"

text \<open>\<open>approve_token\<close>: success is \<open>result is not None\<close>, so an empty output counts.\<close>

definition approve_token :: "env \<Rightarrow> cast \<Rightarrow> string \<Rightarrow> string \<Rightarrow> int \<Rightarrow> world \<Rightarrow> bool \<times> world" where
  "approve_token e c token_address spender amount w =
     (case run_cast_command e c
             [''send'', token_address, ''approve(address,uint256)'', spender, py_str amount] w of
        (result, w1) \<Rightarrow> (result \<noteq> None, w1))"

text \<open>
  Lines 97-107 of \<open>get_campaign_address\<close>, as a function of the executor's result: the
  canonical form of an address.
\<close>

definition format_campaign_address :: "string option \<Rightarrow> string option" where
  "format_campaign_address result =
     (case result of
        Some r \<Rightarrow>
          (if r \<noteq> [] \<and> py_startswith r ''0x''
           then (let hex_part = drop 2 r;
                     hex_part' = (if length hex_part > 40 then py_last_n 40 hex_part
                                  else if length hex_part < 40 then py_zfill 40 hex_part
                                  else hex_part)
                 in Some (''0x'' @ hex_part'))
           else result)
      | None \<Rightarrow> result)"

definition get_campaign_address :: "env \<Rightarrow> cast \<Rightarrow> string \<Rightarrow> int \<Rightarrow> world \<Rightarrow> string option \<times> world" where
  "get_campaign_address e c factory_address campaign_id w =
     (case run_cast_command e c
             [''call'', factory_address, ''getCampaignAddress(uint256)'', py_str campaign_id] w of
        (result, w1) \<Rightarrow> (format_campaign_address result, w1))"

text \<open>\<open>get_account_address\<close>: no endpoint flag, a 30-second timeout.\<close>

definition get_account_address :: "env \<Rightarrow> cast \<Rightarrow> world \<Rightarrow> string option \<times> world" where
  "get_account_address e c w =
     (let fc = [''cast'', ''wallet'', ''address'', private_key c];
          w1 = log_line DEBUG ''Executing: cast wallet address ...'' w
      in (case subprocess_run e fc 30 w1 of
            (Completed returncode out err, w2) \<Rightarrow>
              (if returncode \<noteq> 0
               then (None, log_line ERROR (''Cast wallet command failed: '' @ err) w2)
               else (let output = py_strip out
                     in (Some output, log_line DEBUG (''Account address: '' @ output) w2)))
          | (TimeoutExpired, w2) \<Rightarrow>
              (None, log_line ERROR ''Cast wallet command timed out'' w2)
          | (OtherException msg, w2) \<Rightarrow>
              (None, log_line ERROR (''Error executing cast wallet command: '' @ msg) w2)))"

section \<open>AMM helper (\<open>uniswap_helper.py\<close>)\<close>

definition ROUTER_ADDRESS :: string where
  "ROUTER_ADDRESS = ''0xeE567Fe1712Faf6149d80dA1E6934E354124CfE3''"

definition FACTORY_ADDRESS :: string where
  "FACTORY_ADDRESS = ''0xF62c03E08ada871A0bEb309762E260a7a6a880E6''"

definition zero_address :: string where
  "zero_address = ''0x0000000000000000000000000000000000000000''"

text \<open>Lines 32-36 of \<open>get_pair_address\<close>, as a function of the executor's result.\<close>

definition format_pair_address :: "string option \<Rightarrow> string option" where
  "format_pair_address result =
     (case result of
        Some r \<Rightarrow>
          (if r \<noteq> [] \<and> r \<noteq> zero_address
           then (let clean_addr = py_zfill 40 (drop 2 r) in Some (''0x'' @ clean_addr))
           else None)
      | None \<Rightarrow> None)"

definition get_pair_address :: "env \<Rightarrow> cast \<Rightarrow> string \<Rightarrow> string \<Rightarrow> world \<Rightarrow> string option \<times> world" where
  "get_pair_address e c token_a token_b w =
     (case run_cast_command e c
             [''call'', FACTORY_ADDRESS, ''getPair(address,address)(address)'', token_a, token_b] w of
        (result, w1) \<Rightarrow> (format_pair_address result, w1))"


text \<open>
  Lines 48-59 of \<open>get_reserves\<close>: the parse of the tuple text. Every failure inside
  the \<open>try\<close> ends in \<open>None\<close>.
\<close>

definition parse_reserves :: "string \<Rightarrow> (int \<times> int) option" where
  "parse_reserves result =
     (let parts = py_split CHR '','' (py_strip_chars ''()'' result)
      in if length parts \<ge> 2
         then (case py_int (py_strip (parts ! 0)) 16 of
                 None \<Rightarrow> None
               | Some reserve0 \<Rightarrow>
                   (case py_int (py_strip (parts ! 1)) 16 of
                      None \<Rightarrow> None
                    | Some reserve1 \<Rightarrow> Some (reserve0, reserve1)))
         else None)"

definition get_reserves :: "env \<Rightarrow> cast \<Rightarrow> string \<Rightarrow> world \<Rightarrow> (int \<times> int) option \<times> world" where
  "get_reserves e c pair_address w =
     (case run_cast_command e c
             [''call'', pair_address, ''getReserves()(uint112,uint112,uint32)''] w of
        (result, w1) \<Rightarrow>
          (case result of
             Some r \<Rightarrow> (if r = [] then (None, w1) else (parse_reserves r, w1))
           | None \<Rightarrow> (None, w1)))"

text \<open>\<open>swap_tokens_for_usdc\<close>. The deadline is \<open>int(time.time()) + 600\<close>.\<close>

definition swap_tokens_for_usdc ::
  "env \<Rightarrow> cast \<Rightarrow> string \<Rightarrow> string \<Rightarrow> int \<Rightarrow> int \<Rightarrow> world \<Rightarrow> bool \<times> world" where
  "swap_tokens_for_usdc e c token_address usdc_address token_amount min_usdc_out w =
     (case approve_token e c token_address ROUTER_ADDRESS token_amount w of
        (False, w1) \<Rightarrow> (False, w1)
      | (True, w1) \<Rightarrow>
          (case run_cast_command e c [''wallet'', ''address'', private_key c] w1 of
             (None, w2) \<Rightarrow> (False, w2)
           | (Some account_result, w2) \<Rightarrow>
               (if account_result = [] then (False, w2)
                else (let account_address = py_strip account_result;
                          deadline = py_trunc (clock w2) + 600
                      in (case run_cast_command e c
                                 [''send'', ROUTER_ADDRESS,
                                  ''swapExactTokensForTokens(uint256,uint256,address[],address,uint256)'',
                                  py_str token_amount,
                                  py_str min_usdc_out,
                                  ''['' @ token_address @ '','' @ usdc_address @ '']'',
                                  account_address,
                                  py_str deadline] w2 of
                            (result, w3) \<Rightarrow> (truthy result, w3))))))"

text \<open>
  \<open>test_token_swap\<close>. The whole body stands in a \<open>try\<close> whose handler returns
  \<open>False\<close>; the only exceptions the body can raise are those of the float operations.
\<close>

definition test_token_swap ::
  "env \<Rightarrow> cast \<Rightarrow> string \<Rightarrow> string \<Rightarrow> int \<Rightarrow> world \<Rightarrow> bool \<times> world" where
  "test_token_swap e c campaign_token_address usdc_address swap_amount w =
     (case get_pair_address e c campaign_token_address usdc_address w of
        (None, w1) \<Rightarrow> (False, w1)
      | (Some pair_address, w1) \<Rightarrow>
          (if pair_address = [] then (False, w1)
           else (case get_reserves e c pair_address w1 of
                   (None, w2) \<Rightarrow> (False, w2)
                 | (Some (reserve0, reserve1), w2) \<Rightarrow>
                     (if reserve0 = 0 \<or> reserve1 = 0 then (False, w2)
                      else (case run_cast_command e c
                                   [''call'', pair_address, ''token0()(address)''] w2 of
                              (None, w3) \<Rightarrow> (False, w3)
                            | (Some token0_result, w3) \<Rightarrow>
                                (if token0_result = [] then (False, w3)
                                 else (let token0 = py_lower token0_result;
                                           is_token0_campaign_token =
                                             (py_lower campaign_token_address = token0);
                                           token_reserve =
                                             (if is_token0_campaign_token then reserve0 else reserve1);
                                           usdc_reserve =
                                             (if is_token0_campaign_token then reserve1 else reserve0);
                                           expected_usdc_out =
                                             get_amount_out swap_amount token_reserve usdc_reserve
                                       in (case mul_095 e expected_usdc_out of
                                             None \<Rightarrow> (False, w3)
                                           | Some min_usdc_out \<Rightarrow>
                                               (if true_div_raises e expected_usdc_out (10 ^ 6)
                                                   \<or> true_div_raises e min_usdc_out (10 ^ 6)
                                                then (False, w3)
                                                else swap_tokens_for_usdc e c
                                                       campaign_token_address usdc_address
                                                       swap_amount min_usdc_out w3)))))))))"

section \<open>Configuration (\<open>sepolia_test.py\<close>)\<close>

record contract_addresses =
  factory :: string
  usdc :: string

record test_config =
  config_rpc_url :: string
  creator_private_key :: string
  donor_private_key :: string
  addresses :: contract_addresses
  funding_goal :: int
  campaign_duration :: int
  min_contribution :: int

definition required_variables :: "string list" where
  "required_variables =
     [''RPC_URL'', ''CREATOR_PRIVATE_KEY'', ''DONOR_PRIVATE_KEY'',
      ''CROWDFUNDING_FACTORY_ADDRESS'', ''USDC_TOKEN_ADDRESS'']"

text \<open>The value of a variable that was checked to be set.\<close>

fun value_of :: "string option \<Rightarrow> string" where
  "value_of (Some s) = s"
| "value_of None = []"

text \<open>
  \<open>_load_config\<close>, with \<open>os.getenv\<close> as the parameter \<open>getenv\<close>. The three numeric
  fields are the defaults of the dataclass \<open>TestConfig\<close>.
\<close>

definition load_config :: "(string \<Rightarrow> string option) \<Rightarrow> exn + test_config" where
  "load_config getenv =
     (let rpc = getenv ''RPC_URL'';
          creator_key = getenv ''CREATOR_PRIVATE_KEY'';
          donor_key = getenv ''DONOR_PRIVATE_KEY'';
          factory_address = getenv ''CROWDFUNDING_FACTORY_ADDRESS'';
          usdc_address = getenv ''USDC_TOKEN_ADDRESS''
      in if \<not> list_all truthy [rpc, creator_key, donor_key, factory_address, usdc_address]
         then (let missing = map fst (filter (\<lambda>(var, val). \<not> truthy val)
                               [(''RPC_URL'', rpc),
                                (''CREATOR_PRIVATE_KEY'', creator_key),
                                (''DONOR_PRIVATE_KEY'', donor_key),
                                (''CROWDFUNDING_FACTORY_ADDRESS'', factory_address),
                                (''USDC_TOKEN_ADDRESS'', usdc_address)])
               in Inl (ValueError (''Missing environment variables: '' @ py_join '', '' missing)))
         else Inr \<lparr>config_rpc_url = value_of rpc,
                   creator_private_key = value_of creator_key,
                   donor_private_key = value_of donor_key,
                   addresses = \<lparr>factory = value_of factory_address, usdc = value_of usdc_address\<rparr>,
                   funding_goal = 1000 * 10 ^ 6,
                   campaign_duration = 120,
                   min_contribution = 1 * 10 ^ 6\<rparr>)"

text \<open>The two executors of \<open>SepoliaTestSuite.__init__\<close>.\<close>

definition creator_cast :: "test_config \<Rightarrow> cast" where
  "creator_cast cfg = \<lparr>rpc_url = config_rpc_url cfg, private_key = creator_private_key cfg\<rparr>"

definition donor_cast :: "test_config \<Rightarrow> cast" where
  "donor_cast cfg = \<lparr>rpc_url = config_rpc_url cfg, private_key = donor_private_key cfg\<rparr>"


section \<open>Orchestrator (\<open>sepolia_test.py\<close>)\<close>

text \<open>\<open>create_campaign\<close>: the parse of the campaign count (line 124) is not guarded.\<close>

definition create_campaign ::
  "env \<Rightarrow> test_config \<Rightarrow> string \<Rightarrow> int \<Rightarrow> world \<Rightarrow> (exn + (int \<times> string) option) \<times> world" where
  "create_campaign e cfg name liquidity_percentage w =
     (case run_cast_command e (creator_cast cfg)
             [''send'', factory (addresses cfg),
              ''createCampaign(string,string,uint256,uint256,uint256,uint256,string,string)'',
              name,
              ''ipfs://test-metadata'',
              py_str (funding_goal cfg),
              py_str (campaign_duration cfg),
              ''25'',
              py_str liquidity_percentage,
              name @ '' Token'',
              py_upper (take 4 name)] w of
        (result, w1) \<Rightarrow>
          (if \<not> truthy result then (Inr None, w1)
           else (case run_cast_command e (creator_cast cfg)
                        [''call'', factory (addresses cfg), ''getCampaignCount()(uint256)'']
                        (sleep 10 w1) of
                   (None, w2) \<Rightarrow> (Inr None, w2)
                 | (Some campaign_count_result, w2) \<Rightarrow>
                     (if campaign_count_result = [] then (Inr None, w2)
                      else (case py_int campaign_count_result 10 of
                              None \<Rightarrow> (Inl (ValueError_int campaign_count_result 10), w2)
                            | Some n \<Rightarrow>
                                (let campaign_id = n - 1
                                 in (case get_campaign_address e (creator_cast cfg)
                                            (factory (addresses cfg)) campaign_id w2 of
                                       (campaign_address, w3) \<Rightarrow>
                                         (if \<not> truthy campaign_address then (Inr None, w3)
                                          else (Inr (Some (campaign_id, value_of campaign_address)),
                                                w3)))))))))"

text \<open>
  \<open>contribute_to_campaign\<close>. Its first statement formats \<open>amount / 10**6\<close> for the
  log, which can raise.
\<close>

definition contribute_to_campaign ::
  "env \<Rightarrow> test_config \<Rightarrow> string \<Rightarrow> int \<Rightarrow> world \<Rightarrow> (exn + bool) \<times> world" where
  "contribute_to_campaign e cfg campaign_address amount w =
     (if true_div_raises e amount (10 ^ 6) then (Inl OverflowError, w)
      else (case approve_token e (donor_cast cfg) (usdc (addresses cfg)) campaign_address amount w of
              (False, w1) \<Rightarrow> (Inr False, w1)
            | (True, w1) \<Rightarrow>
                (case run_cast_command e (donor_cast cfg)
                        [''send'', campaign_address, ''contribute(uint256)'', py_str amount]
                        (sleep 5 w1) of
                   (result, w2) \<Rightarrow> (Inr (truthy result), w2))))"

text \<open>
  One iteration of the loop of \<open>wait_for_campaign_end\<close>: the state-refresh transaction
  with its sleep (lines 165-172), the state read (lines 175-178), and what the iteration
  decides (lines 180-193).
\<close>

definition update_campaign_state :: "env \<Rightarrow> test_config \<Rightarrow> string \<Rightarrow> world \<Rightarrow> world" where
  "update_campaign_state e cfg campaign_address w =
     (case run_cast_command e (creator_cast cfg)
             [''send'', campaign_address, ''updateCampaignState()''] w of
        (update_result, w1) \<Rightarrow> (if truthy update_result then sleep 5 w1 else w1))"

definition read_campaign_state ::
  "env \<Rightarrow> test_config \<Rightarrow> string \<Rightarrow> world \<Rightarrow> string option \<times> world" where
  "read_campaign_state e cfg campaign_address w =
     run_cast_command e (creator_cast cfg)
       [''call'', campaign_address, ''getCampaignState()(uint8)''] w"

datatype poll = Return bool | Raise exn | Continue

definition poll_once :: "env \<Rightarrow> test_config \<Rightarrow> string \<Rightarrow> world \<Rightarrow> poll \<times> world" where
  "poll_once e cfg campaign_address w =
     (case read_campaign_state e cfg campaign_address
             (update_campaign_state e cfg campaign_address w) of
        (None, w3) \<Rightarrow> (Continue, sleep 10 w3)
      | (Some state_result, w3) \<Rightarrow>
          (if state_result = [] then (Continue, sleep 10 w3)
           else (case py_int state_result 16 of
                   None \<Rightarrow> (Raise (ValueError_int state_result 16), w3)
                 | Some state \<Rightarrow>
                     (if state = 0 then (Continue, sleep 10 w3)
                      else if state = 1 then (Return True, w3)
                      else if state = 2 then (Return False, w3)
                      else (Continue, sleep 10 w3)))))"

lemma clock_run_cast_command:
  "clock w \<le> clock (snd (run_cast_command e c command w))"
  by (simp add: run_cast_command_def subprocess_run_def log_line_def Let_def
      split: proc_outcome.split)

lemma clock_update_campaign_state:
  "clock w \<le> clock (update_campaign_state e cfg a w)"
proof -
  obtain r w1 where h: "run_cast_command e (creator_cast cfg)
      [''send'', a, ''updateCampaignState()''] w = (r, w1)"
    by (cases "run_cast_command e (creator_cast cfg) [''send'', a, ''updateCampaignState()''] w")
  have "clock w \<le> clock w1"
    using clock_run_cast_command [of w e "creator_cast cfg" "[''send'', a, ''updateCampaignState()'']"] h
    by simp
  then show ?thesis
    by (simp add: update_campaign_state_def h sleep_def)
qed

lemma clock_read_campaign_state:
  "clock w \<le> clock (snd (read_campaign_state e cfg a w))"
  by (simp add: read_campaign_state_def clock_run_cast_command)

lemma poll_once_Continue:
  assumes "poll_once e cfg a w = (Continue, w')"
  shows "clock w + 10 \<le> clock w'"
proof -
  let ?w2 = "update_campaign_state e cfg a w"
  obtain r w3 where h: "read_campaign_state e cfg a ?w2 = (r, w3)"
    by (cases "read_campaign_state e cfg a ?w2")
  have "clock w \<le> clock ?w2"
    by (rule clock_update_campaign_state)
  moreover have "clock ?w2 \<le> clock w3"
    using clock_read_campaign_state [of ?w2 e cfg a] h by simp
  moreover have "w' = sleep 10 w3"
    using assms h
    by (auto simp: poll_once_def split: option.splits if_splits)
  ultimately show ?thesis
    by (simp add: sleep_def)
qed

text \<open>
  The loop of \<open>wait_for_campaign_end\<close> (lines 163-196) with \<open>start_time\<close> as \<open>start\<close>.
  Every iteration that does not leave the loop sleeps ten seconds, so the loop ends.
\<close>

function wait_loop ::
  "env \<Rightarrow> test_config \<Rightarrow> string \<Rightarrow> real \<Rightarrow> int \<Rightarrow> world \<Rightarrow> (exn + bool) \<times> world" where
  "wait_loop e cfg campaign_address start max_wait w =
     (if clock w - start < real_of_int max_wait
      then (case poll_once e cfg campaign_address w of
              (Return b, w') \<Rightarrow> (Inr b, w')
            | (Raise x, w') \<Rightarrow> (Inl x, w')
            | (Continue, w') \<Rightarrow> wait_loop e cfg campaign_address start max_wait w')
      else (Inr False, w))"
  by pat_completeness auto
termination
proof (relation "measure (\<lambda>(e, cfg, a, start, max_wait, w).
                   nat \<lceil>start + real_of_int max_wait - clock w\<rceil>)")
  show "wf (measure (\<lambda>(e, cfg, a, start, max_wait, w).
              nat \<lceil>start + real_of_int max_wait - clock w\<rceil>))"
    by simp
next
  fix e :: env and cfg :: test_config and campaign_address :: string
    and start :: real and max_wait :: int and w :: world
    and p :: poll and w' :: world
  assume inside: "clock w - start < real_of_int max_wait"
    and px: "(p, w') = poll_once e cfg campaign_address w"
    and p: "p = Continue"
  have "poll_once e cfg campaign_address w = (Continue, w')"
    using px p by simp
  then have "clock w + 10 \<le> clock w'"
    by (rule poll_once_Continue)
  then have "\<lceil>start + real_of_int max_wait - clock w'\<rceil>
               < \<lceil>start + real_of_int max_wait - clock w\<rceil>"
    by linarith
  moreover have "0 < \<lceil>start + real_of_int max_wait - clock w\<rceil>"
    using inside by linarith
  ultimately show "((e, cfg, campaign_address, start, max_wait, w'),
                    (e, cfg, campaign_address, start, max_wait, w))
                   \<in> measure (\<lambda>(e, cfg, a, start, max_wait, w).
                        nat \<lceil>start + real_of_int max_wait - clock w\<rceil>)"
    by simp
qed

declare wait_loop.simps [simp del]

definition wait_for_campaign_end ::
  "env \<Rightarrow> test_config \<Rightarrow> string \<Rightarrow> int \<Rightarrow> world \<Rightarrow> (exn + bool) \<times> world" where
  "wait_for_campaign_end e cfg campaign_address max_wait w =
     wait_loop e cfg campaign_address (clock w) max_wait w"

text \<open>The default of \<open>max_wait\<close>, which every caller in the repository uses.\<close>

definition default_max_wait :: int where
  "default_max_wait = 150"


text \<open>
  \<open>claim_tokens\<close>, \<open>create_liquidity_pool\<close> and \<open>refund_contribution\<close>: one signed
  transaction each, success being a non-empty result.
\<close>

definition claim_tokens :: "env \<Rightarrow> test_config \<Rightarrow> string \<Rightarrow> world \<Rightarrow> bool \<times> world" where
  "claim_tokens e cfg campaign_address w =
     (case run_cast_command e (donor_cast cfg) [''send'', campaign_address, ''claimTokens()''] w of
        (result, w1) \<Rightarrow> (truthy result, w1))"

definition create_liquidity_pool :: "env \<Rightarrow> test_config \<Rightarrow> string \<Rightarrow> world \<Rightarrow> bool \<times> world" where
  "create_liquidity_pool e cfg campaign_address w =
     (case run_cast_command e (creator_cast cfg)
             [''send'', campaign_address, ''createLiquidityPool()''] w of
        (result, w1) \<Rightarrow> (truthy result, w1))"

definition refund_contribution :: "env \<Rightarrow> test_config \<Rightarrow> string \<Rightarrow> world \<Rightarrow> bool \<times> world" where
  "refund_contribution e cfg campaign_address w =
     (case run_cast_command e (donor_cast cfg) [''send'', campaign_address, ''refund()''] w of
        (result, w1) \<Rightarrow> (truthy result, w1))"

text \<open>
  Lines 272-291 of \<open>get_campaign_token_address\<close>: the ninth field of the tuple text,
  in canonical form. Nothing inside the \<open>try\<close> raises.
\<close>

definition parse_token_address :: "string \<Rightarrow> string option" where
  "parse_token_address result =
     (let parts = py_split CHR '','' (py_strip_chars ''()'' result)
      in if length parts \<ge> 9
         then (let token_addr = py_strip (parts ! 8)
               in if py_startswith token_addr ''0x''
                  then (let hex_part = drop 2 token_addr;
                            hex_part' = (if length hex_part > 40 then py_last_n 40 hex_part
                                         else if length hex_part < 40 then py_zfill 40 hex_part
                                         else hex_part)
                        in Some (''0x'' @ hex_part'))
                  else None)
         else None)"

definition get_campaign_token_address ::
  "env \<Rightarrow> test_config \<Rightarrow> int \<Rightarrow> world \<Rightarrow> string option \<times> world" where
  "get_campaign_token_address e cfg campaign_id w =
     (case run_cast_command e (creator_cast cfg)
             [''call'', factory (addresses cfg), ''getCampaign(uint256)'', py_str campaign_id] w of
        (result, w1) \<Rightarrow>
          (case result of
             Some r \<Rightarrow> (if r = [] then (None, w1) else (parse_token_address r, w1))
           | None \<Rightarrow> (None, w1)))"

text \<open>
  Lines 362-392 of \<open>test_scenario_2_success_with_liquidity\<close>: what the scenario does
  after the claim of the tokens. The \<open>try\<close> of the scenario turns the exception of
  \<open>get_balance\<close> into \<open>False\<close>.
\<close>

definition swap_probe :: "env \<Rightarrow> test_config \<Rightarrow> string \<Rightarrow> world \<Rightarrow> bool \<times> world" where
  "swap_probe e cfg campaign_token_address w =
     (case get_account_address e (donor_cast cfg) (sleep 10 w) of
        (donor_address, w1) \<Rightarrow>
          (if \<not> truthy donor_address then (False, w1)
           else (case get_balance e (donor_cast cfg) campaign_token_address
                        (value_of donor_address) w1 of
                   (Inl x, w2) \<Rightarrow> (False, w2)
                 | (Inr token_balance, w2) \<Rightarrow>
                     (if token_balance > 0
                      then (let swap_amount = token_balance div 10
                            in if swap_amount > 0
                               then (case test_token_swap e (donor_cast cfg) campaign_token_address
                                            (usdc (addresses cfg)) swap_amount w2 of
                                       (success, w3) \<Rightarrow> (True, w3))
                               else (True, w2))
                      else (True, w2)))))"

text \<open>
  \<open>test_scenario_2_success_with_liquidity\<close>. An exception anywhere in the body is
  caught at line 394 and gives \<open>False\<close>.
\<close>

definition test_scenario_2_success_with_liquidity ::
  "env \<Rightarrow> test_config \<Rightarrow> world \<Rightarrow> bool \<times> world" where
  "test_scenario_2_success_with_liquidity e cfg w =
     (case create_campaign e cfg ''Test Campaign 2'' 50 w of
        (Inl x, w1) \<Rightarrow> (False, w1)
      | (Inr None, w1) \<Rightarrow> (False, w1)
      | (Inr (Some (campaign_id, campaign_address)), w1) \<Rightarrow>
          (case contribute_to_campaign e cfg campaign_address (funding_goal cfg) w1 of
             (Inl x, w2) \<Rightarrow> (False, w2)
           | (Inr False, w2) \<Rightarrow> (False, w2)
           | (Inr True, w2) \<Rightarrow>
               (case wait_for_campaign_end e cfg campaign_address default_max_wait w2 of
                  (Inl x, w3) \<Rightarrow> (False, w3)
                | (Inr False, w3) \<Rightarrow> (False, w3)
                | (Inr True, w3) \<Rightarrow>
                    (case create_liquidity_pool e cfg campaign_address w3 of
                       (False, w4) \<Rightarrow> (False, w4)
                     | (True, w4) \<Rightarrow>
                         (case get_campaign_token_address e cfg campaign_id w4 of
                            (campaign_token_address, w5) \<Rightarrow>
                              (if \<not> truthy campaign_token_address then (False, w5)
                               else (case claim_tokens e cfg campaign_address w5 of
                                       (False, w6) \<Rightarrow> (False, w6)
                                     | (True, w6) \<Rightarrow>
                                         swap_probe e cfg (value_of campaign_token_address) w6)))))))"

text \<open>\<open>test_scenario_3_failure_and_refund\<close>, with the same \<open>try\<close> around its body.\<close>

definition test_scenario_3_failure_and_refund ::
  "env \<Rightarrow> test_config \<Rightarrow> world \<Rightarrow> bool \<times> world" where
  "test_scenario_3_failure_and_refund e cfg w =
     (case create_campaign e cfg ''Test Campaign 3'' 0 w of
        (Inl x, w1) \<Rightarrow> (False, w1)
      | (Inr None, w1) \<Rightarrow> (False, w1)
      | (Inr (Some (campaign_id, campaign_address)), w1) \<Rightarrow>
          (let partial_amount = funding_goal cfg div 2
           in (case contribute_to_campaign e cfg campaign_address partial_amount w1 of
                 (Inl x, w2) \<Rightarrow> (False, w2)
               | (Inr False, w2) \<Rightarrow> (False, w2)
               | (Inr True, w2) \<Rightarrow>
                   (case wait_for_campaign_end e cfg campaign_address default_max_wait w2 of
                      (Inl x, w3) \<Rightarrow> (False, w3)
                    | (Inr False, w3) \<Rightarrow> (False, w3)
                    | (Inr True, w3) \<Rightarrow>
                        (case refund_contribution e cfg campaign_address w3 of
                           (False, w4) \<Rightarrow> (False, w4)
                         | (True, w4) \<Rightarrow> (True, w4))))))"


section \<open>Concrete inputs\<close>

text \<open>
  Inputs on which the theorems below are run: an executor, the world at the start of a
  run, and the environment in which the \<open>n\<close>-th subprocess with command line
  \<open>cmd\<close> has the outcome \<open>p n cmd\<close> and takes one second.
\<close>

definition demo_cast :: cast where
  "demo_cast = \<lparr>rpc_url = ''http://rpc'', private_key = ''0xKEY''\<rparr>"

definition world0 :: world where
  "world0 = \<lparr>calls = 0, clock = 0, trace = []\<rparr>"

definition env_of :: "(nat \<Rightarrow> string list \<Rightarrow> proc_outcome) \<Rightarrow> env" where
  "env_of p = \<lparr>proc = p,
               proc_time = (\<lambda>n cmd. 1),
               frame_file = (\<lambda>n. ''/repo/sepolia_test.py''),
               frame_line = (\<lambda>n. 1),
               mul_095 = (\<lambda>x. Some (x * 95 div 100)),
               true_div_raises = (\<lambda>a b. False)\<rparr>"

text \<open>Some log line of a trace contains the key.\<close>

fun key_logged :: "string \<Rightarrow> event list \<Rightarrow> bool" where
  "key_logged k [] = False"
| "key_logged k (Log l m # evs) = (py_contains k m \<or> key_logged k evs)"
| "key_logged k (Exec cmd t # evs) = key_logged k evs"
| "key_logged k (Sleep n # evs) = key_logged k evs"

lemmas concrete_simps =
  env_of_def demo_cast_def world0_def caller_tag_def py_str_def str_nat.simps digit_char_def
  full_command_def Let_def

text \<open>The strings of hex digits.\<close>

definition hexdigits :: string where
  "hexdigits = ''0123456789abcdefABCDEF''"

definition is_hex :: "string \<Rightarrow> bool" where
  "is_hex s = list_all (\<lambda>c. c \<in> set hexdigits) s"

text \<open>An all-zero value with 64 hex digits, as an ABI-padded word is printed.\<close>

definition zeros64 :: string where
  "zeros64 = ''0x0000000000000000000000000000000000000000000000000000000000000000''"

text \<open>An environment without the donor key and the stablecoin address, and a full one.\<close>

definition getenv_partial :: "string \<Rightarrow> string option" where
  "getenv_partial v =
     (if v = ''RPC_URL'' then Some ''http://rpc''
      else if v = ''CREATOR_PRIVATE_KEY'' then Some ''0xC''
      else if v = ''CROWDFUNDING_FACTORY_ADDRESS'' then Some ''0xF''
      else None)"

definition getenv_full :: "string \<Rightarrow> string option" where
  "getenv_full v =
     (if v = ''RPC_URL'' then Some ''http://rpc''
      else if v = ''CREATOR_PRIVATE_KEY'' then Some ''0xC''
      else if v = ''DONOR_PRIVATE_KEY'' then Some ''0xD''
      else if v = ''CROWDFUNDING_FACTORY_ADDRESS'' then Some ''0xF''
      else if v = ''USDC_TOKEN_ADDRESS'' then Some ''0xU''
      else None)"

text \<open>A configuration as \<open>_load_config\<close> builds it.\<close>

definition demo_config :: test_config where
  "demo_config = \<lparr>config_rpc_url = ''http://rpc'',
                   creator_private_key = ''0xCKEY'',
                   donor_private_key = ''0xDKEY'',
                   addresses = \<lparr>factory = ''0xFAC'', usdc = ''0xUSDC''\<rparr>,
                   funding_goal = 1000000000,
                   campaign_duration = 120,
                   min_contribution = 1000000\<rparr>"

text \<open>The environment in which every subprocess exits with code 0 and prints \<open>out\<close>.\<close>

definition env_printing :: "string \<Rightarrow> env" where
  "env_printing out = env_of (\<lambda>n cmd. Completed 0 out [])"


text \<open>
  The world at the head of the \<open>k\<close>-th iteration of the loop of \<open>wait_for_campaign_end\<close>
  that starts in \<open>w\<close>, when no earlier iteration has left the loop.
\<close>

fun heads :: "env \<Rightarrow> test_config \<Rightarrow> string \<Rightarrow> world \<Rightarrow> nat \<Rightarrow> world" where
  "heads e cfg a w 0 = w"
| "heads e cfg a w (Suc k) = heads e cfg a (snd (poll_once e cfg a w)) k"

text \<open>
  The state read of the iteration that starts in \<open>h\<close> observes state 0 or gives no
  result.
\<close>

definition quiet_read :: "env \<Rightarrow> test_config \<Rightarrow> string \<Rightarrow> world \<Rightarrow> bool" where
  "quiet_read e cfg a h =
     (case fst (read_campaign_state e cfg a (update_campaign_state e cfg a h)) of
        None \<Rightarrow> True
      | Some s \<Rightarrow> s = [] \<or> py_int s 16 = Some 0)"

text \<open>
  What the state read of the \<open>k\<close>-th iteration returns, and how many seconds after the
  start of the operation it ends.
\<close>

definition observation ::
  "env \<Rightarrow> test_config \<Rightarrow> string \<Rightarrow> world \<Rightarrow> nat \<Rightarrow> string option \<times> real" where
  "observation e cfg a w k =
     (let r = read_campaign_state e cfg a (update_campaign_state e cfg a (heads e cfg a w k))
      in (fst r, clock (snd r) - clock w))"

text \<open>
  An environment in which every subprocess takes three seconds and prints \<open>0\<close>, but for
  the sixteenth, which prints \<open>1\<close>.
\<close>

definition slow_env :: env where
  "slow_env = \<lparr>proc = (\<lambda>n cmd. Completed 0 (if n = 15 then ''1'' else ''0'') []),
               proc_time = (\<lambda>n cmd. 3),
               frame_file = (\<lambda>n. ''/repo/sepolia_test.py''),
               frame_line = (\<lambda>n. 1),
               mul_095 = (\<lambda>x. Some (x * 95 div 100)),
               true_div_raises = (\<lambda>a b. False)\<rparr>"

text \<open>What the chain of the runs below prints: an ABI-padded campaign address, and the
  tuple of a campaign whose ninth field is the token address \<open>0x70\<close>.\<close>

definition campaign_word :: string where
  "campaign_word = ''0x00000000000000000000000000000000000000000000000000000000000000c4''"

definition campaign_c4 :: string where
  "campaign_c4 = ''0x00000000000000000000000000000000000000c4''"

definition token_70 :: string where
  "token_70 = ''0x0000000000000000000000000000000000000070''"

definition campaign_tuple :: string where
  "campaign_tuple = ''(0xA1, Name, ipfs://m, 1000000000, 120, 25, 50, 1000000000, 0x70, 1, 0)''"

text \<open>The verb and the function signature of a command line of the client.\<close>

fun verb_of :: "string list \<Rightarrow> string" where
  "verb_of (c0 # verb # rest) = verb"
| "verb_of cmd = []"

fun signature_of :: "string list \<Rightarrow> string" where
  "signature_of (c0 # verb # target # sig # rest) = sig"
| "signature_of cmd = []"

text \<open>
  A chain on which every transaction is accepted, the campaign with id 6 is in the given
  state, the donor holds 100 tokens and no pair exists; \<open>wallet_ok\<close> says whether the
  client derives addresses.
\<close>

definition chain :: "string \<Rightarrow> bool \<Rightarrow> nat \<Rightarrow> string list \<Rightarrow> proc_outcome" where
  "chain state wallet_ok n cmd =
     (if verb_of cmd = ''wallet''
        then (if wallet_ok then Completed 0 ''0xD0'' [] else Completed 1 [] ''Error: invalid key'')
      else if signature_of cmd = ''getCampaignState()(uint8)'' then Completed 0 state []
      else if signature_of cmd = ''getCampaignCount()(uint256)'' then Completed 0 ''7'' []
      else if signature_of cmd = ''getCampaignAddress(uint256)'' then Completed 0 campaign_word []
      else if signature_of cmd = ''getCampaign(uint256)'' then Completed 0 campaign_tuple []
      else if signature_of cmd = ''balanceOf(address)(uint256)'' then Completed 0 ''0x64'' []
      else if signature_of cmd = ''getPair(address,address)(address)''
        then Completed 0 zero_address []
      else Completed 0 ''0xhash'' [])"

text \<open>
  The worlds between the steps of scenario 3 and of scenario 2 when they run in the
  environment \<open>e\<close> on \<open>demo_config\<close> from \<open>world0\<close>.
\<close>

definition s3_w1 :: "env \<Rightarrow> world" where
  "s3_w1 e = snd (create_campaign e demo_config ''Test Campaign 3'' 0 world0)"

definition s3_w2 :: "env \<Rightarrow> world" where
  "s3_w2 e = snd (contribute_to_campaign e demo_config campaign_c4
                    (funding_goal demo_config div 2) (s3_w1 e))"

definition s3_w3 :: "env \<Rightarrow> world" where
  "s3_w3 e = snd (wait_for_campaign_end e demo_config campaign_c4 default_max_wait (s3_w2 e))"

definition s2_w1 :: "env \<Rightarrow> world" where
  "s2_w1 e = snd (create_campaign e demo_config ''Test Campaign 2'' 50 world0)"

definition s2_w2 :: "env \<Rightarrow> world" where
  "s2_w2 e = snd (contribute_to_campaign e demo_config campaign_c4
                    (funding_goal demo_config) (s2_w1 e))"

definition s2_w3 :: "env \<Rightarrow> world" where
  "s2_w3 e = snd (wait_for_campaign_end e demo_config campaign_c4 default_max_wait (s2_w2 e))"

definition s2_w4 :: "env \<Rightarrow> world" where
  "s2_w4 e = snd (create_liquidity_pool e demo_config campaign_c4 (s2_w3 e))"

definition s2_w5 :: "env \<Rightarrow> world" where
  "s2_w5 e = snd (get_campaign_token_address e demo_config 6 (s2_w4 e))"

definition s2_w6 :: "env \<Rightarrow> world" where
  "s2_w6 e = snd (claim_tokens e demo_config campaign_c4 (s2_w5 e))"

definition s2_w7 :: "env \<Rightarrow> world" where
  "s2_w7 e = snd (get_account_address e (donor_cast demo_config) (sleep 10 (s2_w6 e)))"

section \<open>Facts about the Command Executor\<close>

lemma trace_run_cast_command:
  "trace (snd (run_cast_command e c command w)) =
     trace w @
     [Log DEBUG (caller_tag e (calls w) @ ''Executing: ''
                 @ py_join '' '' (take 3 (full_command c command)) @ '' ...''),
      Exec (full_command c command) 60,
      (case proc e (calls w) (full_command c command) of
         Completed returncode out err \<Rightarrow>
           (if returncode \<noteq> 0
            then Log ERROR (caller_tag e (calls w) @ ''Cast command failed: '' @ err)
            else Log DEBUG (caller_tag e (calls w) @ ''Cast result: '' @ py_strip out))
       | TimeoutExpired \<Rightarrow> Log ERROR (caller_tag e (calls w) @ ''Cast command timed out'')
       | OtherException msg \<Rightarrow>
           Log ERROR (caller_tag e (calls w) @ ''Error executing cast command: '' @ msg))]"
  by (simp add: run_cast_command_def subprocess_run_def log_line_def Let_def
      split: proc_outcome.split)

lemma result_run_cast_command:
  "fst (run_cast_command e c command w) =
     (case proc e (calls w) (full_command c command) of
        Completed returncode out err \<Rightarrow> (if returncode \<noteq> 0 then None else Some (py_strip out))
      | TimeoutExpired \<Rightarrow> None
      | OtherException msg \<Rightarrow> None)"
  by (simp add: run_cast_command_def subprocess_run_def log_line_def Let_def
      split: proc_outcome.split)

lemma full_command_eq:
  "full_command c command =
     [''cast''] @ command @ [''--rpc-url'', rpc_url c]
       @ (if ''send'' \<in> set command then [''--private-key'', private_key c] else [])"
  by (simp add: full_command_def Let_def)

lemma take3_full_command:
  "take 3 (full_command c command) = take 3 ([''cast''] @ command @ [''--rpc-url'', rpc_url c])"
proof -
  have "full_command c command =
          ([''cast''] @ command @ [''--rpc-url'', rpc_url c])
            @ (if ''send'' \<in> set command then [''--private-key'', private_key c] else [])"
    by (simp add: full_command_eq)
  moreover have "3 \<le> length ([''cast''] @ command @ [''--rpc-url'', rpc_url c])"
    by simp
  moreover have "\<And>xs ys :: string list. 3 \<le> length xs \<Longrightarrow> take 3 (xs @ ys) = take 3 xs"
    by simp
  ultimately show ?thesis
    by (simp only:)
qed

section \<open>The pricing formula\<close>

text \<open>
  Claim C2, as amended. For non-negative \<open>amountIn\<close>, \<open>reserveIn\<close> and \<open>reserveOut\<close>,
  \<open>get_amount_out\<close> returns 0 when either reserve is 0 and otherwise the floor of
  \<open>amountIn * 997 * reserveOut / (reserveIn * 1000 + amountIn * 997)\<close>; for
  \<open>amountIn = 1_000_000\<close>, \<open>reserveIn = 100_000_000\<close>, \<open>reserveOut = 200_000_000\<close> that is
  \<open>1_974_316\<close>.
\<close>

theorem get_amount_out_formula:
  assumes "0 \<le> amount_in" and "0 \<le> reserve_in" and "0 \<le> reserve_out"
  shows "get_amount_out amount_in reserve_in reserve_out =
           (if reserve_in = 0 \<or> reserve_out = 0 then 0
            else \<lfloor>real_of_int (amount_in * 997 * reserve_out)
                    / real_of_int (reserve_in * 1000 + amount_in * 997)\<rfloor>)
         \<and> get_amount_out 1000000 100000000 200000000 = 1974316"
proof (intro conjI)
  show "get_amount_out amount_in reserve_in reserve_out =
           (if reserve_in = 0 \<or> reserve_out = 0 then 0
            else \<lfloor>real_of_int (amount_in * 997 * reserve_out)
                    / real_of_int (reserve_in * 1000 + amount_in * 997)\<rfloor>)"
  proof (cases "reserve_in = 0 \<or> reserve_out = 0")
    case True
    then show ?thesis by (simp add: get_amount_out_def)
  next
    case False
    then have "0 < reserve_in * 1000 + amount_in * 997"
      using assms by linarith
    with False have g: "get_amount_out amount_in reserve_in reserve_out =
        amount_in * 997 * reserve_out div (reserve_in * 1000 + amount_in * 997)"
      by (simp add: get_amount_out_def Let_def)
    have fl: "\<lfloor>real_of_int (amount_in * 997 * reserve_out)
                / real_of_int (reserve_in * 1000 + amount_in * 997)\<rfloor>
              = amount_in * 997 * reserve_out div (reserve_in * 1000 + amount_in * 997)"
      by (rule floor_divide_of_int_eq)
    show ?thesis
      by (simp only: g fl False if_False)
  qed
next
  show "get_amount_out 1000000 100000000 200000000 = 1974316"
    by (simp add: get_amount_out_def Let_def)
qed

text \<open>The theorem at \<open>(5, 7, 11)\<close>, where the quotient is \<open>54835 / 11985\<close>, and at a zero reserve.\<close>

theorem get_amount_out_formula_witness:
  "get_amount_out 5 7 11 = 4 \<and> get_amount_out 5 0 11 = 0"
  using get_amount_out_formula [of 5 7 11] get_amount_out_formula [of 5 0 11]
  by simp

text \<open>The value the claim gives for its example is not what the code returns.\<close>

theorem get_amount_out_example_counterexample:
  "get_amount_out 1000000 100000000 200000000 \<noteq> 1982713"
  by (simp add: get_amount_out_def Let_def)


section \<open>The signing-key flag\<close>

text \<open>
  Claim C3. The command line \<open>run_cast_command\<close> runs is \<open>cast\<close>, the given arguments
  and the endpoint flag, followed by \<open>--private-key\<close> and the key exactly when the
  token \<open>send\<close> is an element of the argument list; a \<open>call\<close> whose arguments only
  contain \<open>send\<close> as a substring gets no key. The subprocess runs that command line.
\<close>

theorem run_cast_command_private_key_flag:
  "full_command c command =
     [''cast''] @ command @ [''--rpc-url'', rpc_url c]
       @ (if ''send'' \<in> set command then [''--private-key'', private_key c] else [])
   \<and> (\<exists>l1 l2. trace (snd (run_cast_command e c command w)) =
          trace w @ [Log DEBUG l1, Exec (full_command c command) 60, l2])"
proof
  show "full_command c command =
     [''cast''] @ command @ [''--rpc-url'', rpc_url c]
       @ (if ''send'' \<in> set command then [''--private-key'', private_key c] else [])"
    by (rule full_command_eq)
next
  show "\<exists>l1 l2. trace (snd (run_cast_command e c command w)) =
          trace w @ [Log DEBUG l1, Exec (full_command c command) 60, l2]"
    using trace_run_cast_command [of e c command w] by blast
qed

text \<open>
  A \<open>send\<close> gets the key; a \<open>call\<close> of a function named \<open>sendTokens()\<close>, which
  contains \<open>send\<close>, does not.
\<close>

theorem run_cast_command_private_key_flag_witness:
  "full_command demo_cast [''send'', ''0xC'', ''approve(address,uint256)'', ''0xD'', ''5'']
     = [''cast'', ''send'', ''0xC'', ''approve(address,uint256)'', ''0xD'', ''5'',
        ''--rpc-url'', ''http://rpc'', ''--private-key'', ''0xKEY'']
   \<and> py_contains ''send'' ''sendTokens()''
   \<and> full_command demo_cast [''call'', ''0xC'', ''sendTokens()'']
     = [''cast'', ''call'', ''0xC'', ''sendTokens()'', ''--rpc-url'', ''http://rpc'']"
  using run_cast_command_private_key_flag
          [of demo_cast "[''send'', ''0xC'', ''approve(address,uint256)'', ''0xD'', ''5'']"]
        run_cast_command_private_key_flag [of demo_cast "[''call'', ''0xC'', ''sendTokens()'']"]
  by (simp add: demo_cast_def)

section \<open>Failures and log lines of the Command Executor\<close>

text \<open>
  Claim C4, as amended. A timeout, a non-zero exit code and any other exception of the
  subprocess each make \<open>run_cast_command\<close> return \<open>None\<close>; a zero exit code gives the
  stripped standard output. The operation emits two log lines around the subprocess.
  The first is built from the caller's tag and the first three tokens of \<open>cast\<close>, the
  arguments and the endpoint flag: the key the operation appends is never among them.
  The second carries the standard error, the stripped standard output or the text of
  the exception as the subprocess gave it.
\<close>

theorem run_cast_command_failures:
  "(case proc e (calls w) (full_command c command) of
      Completed returncode out err \<Rightarrow>
        fst (run_cast_command e c command w)
          = (if returncode \<noteq> 0 then None else Some (py_strip out))
    | TimeoutExpired \<Rightarrow> fst (run_cast_command e c command w) = None
    | OtherException msg \<Rightarrow> fst (run_cast_command e c command w) = None)
   \<and> trace (snd (run_cast_command e c command w)) =
       trace w @
       [Log DEBUG (caller_tag e (calls w) @ ''Executing: ''
                   @ py_join '' '' (take 3 ([''cast''] @ command @ [''--rpc-url'', rpc_url c]))
                   @ '' ...''),
        Exec (full_command c command) 60,
        (case proc e (calls w) (full_command c command) of
           Completed returncode out err \<Rightarrow>
             (if returncode \<noteq> 0
              then Log ERROR (caller_tag e (calls w) @ ''Cast command failed: '' @ err)
              else Log DEBUG (caller_tag e (calls w) @ ''Cast result: '' @ py_strip out))
         | TimeoutExpired \<Rightarrow> Log ERROR (caller_tag e (calls w) @ ''Cast command timed out'')
         | OtherException msg \<Rightarrow>
             Log ERROR (caller_tag e (calls w) @ ''Error executing cast command: '' @ msg))]"
proof
  show "(case proc e (calls w) (full_command c command) of
      Completed returncode out err \<Rightarrow>
        fst (run_cast_command e c command w)
          = (if returncode \<noteq> 0 then None else Some (py_strip out))
    | TimeoutExpired \<Rightarrow> fst (run_cast_command e c command w) = None
    | OtherException msg \<Rightarrow> fst (run_cast_command e c command w) = None)"
    by (simp add: result_run_cast_command split: proc_outcome.split)
next
  show "trace (snd (run_cast_command e c command w)) =
       trace w @
       [Log DEBUG (caller_tag e (calls w) @ ''Executing: ''
                   @ py_join '' '' (take 3 ([''cast''] @ command @ [''--rpc-url'', rpc_url c]))
                   @ '' ...''),
        Exec (full_command c command) 60,
        (case proc e (calls w) (full_command c command) of
           Completed returncode out err \<Rightarrow>
             (if returncode \<noteq> 0
              then Log ERROR (caller_tag e (calls w) @ ''Cast command failed: '' @ err)
              else Log DEBUG (caller_tag e (calls w) @ ''Cast result: '' @ py_strip out))
         | TimeoutExpired \<Rightarrow> Log ERROR (caller_tag e (calls w) @ ''Cast command timed out'')
         | OtherException msg \<Rightarrow>
             Log ERROR (caller_tag e (calls w) @ ''Error executing cast command: '' @ msg))]"
    by (simp only: trace_run_cast_command take3_full_command)
qed

text \<open>A refund transaction whose subprocess times out.\<close>

theorem run_cast_command_failures_witness:
  "fst (run_cast_command (env_of (\<lambda>n cmd. TimeoutExpired)) demo_cast
          [''send'', ''0xC'', ''refund()''] world0) = None
   \<and> trace (snd (run_cast_command (env_of (\<lambda>n cmd. TimeoutExpired)) demo_cast
                    [''send'', ''0xC'', ''refund()''] world0))
     = [Log DEBUG ''[sepolia_test.py:1] Executing: cast send 0xC ...'',
        Exec [''cast'', ''send'', ''0xC'', ''refund()'', ''--rpc-url'', ''http://rpc'',
              ''--private-key'', ''0xKEY''] 60,
        Log ERROR ''[sepolia_test.py:1] Cast command timed out'']"
  using run_cast_command_failures
          [where e = "env_of (\<lambda>n cmd. TimeoutExpired)" and w = world0 and c = demo_cast
             and command = "[''send'', ''0xC'', ''refund()'']"]
  by (simp add: concrete_simps)

text \<open>
  The key does reach a log line: when the client fails and its standard error repeats
  the key, and when the key stands among the first two arguments.
\<close>

theorem run_cast_command_key_logged_counterexample:
  "key_logged (private_key demo_cast)
     (trace (snd (run_cast_command
                    (env_of (\<lambda>n cmd. Completed 1 [] ''error: invalid value 0xKEY''))
                    demo_cast [''send'', ''0xC'', ''refund()''] world0)))
   \<and> key_logged (private_key demo_cast)
        (trace (snd (run_cast_command (env_of (\<lambda>n cmd. TimeoutExpired))
                       demo_cast [private_key demo_cast] world0)))"
  by (simp add: trace_run_cast_command concrete_simps)

section \<open>Canonical addresses\<close>

lemma zero_hexdigit: "CHR ''0'' \<in> set hexdigits"
  by (simp add: hexdigits_def)

lemma startswith_0x:
  "py_startswith r ''0x'' = (\<exists>t. r = CHR ''0'' # CHR ''x'' # t)"
proof (cases r)
  case Nil
  then show ?thesis by (simp add: py_startswith_def)
next
  case (Cons a r')
  then show ?thesis by (cases r') (auto simp: py_startswith_def)
qed

lemma length_py_zfill: "length (py_zfill n s) = max n (length s)"
  by (auto simp: py_zfill_def split: list.split)

lemma py_zfill_unsigned:
  assumes "length s < n" and "\<not> py_startswith s ''+''" and "\<not> py_startswith s ''-''"
  shows "py_zfill n s = replicate (n - length s) CHR ''0'' @ s"
  using assms by (cases s) (auto simp: py_zfill_def py_startswith_def)

lemma is_hex_py_zfill: "is_hex s \<Longrightarrow> is_hex (py_zfill n s)"
  by (cases s) (auto simp: py_zfill_def is_hex_def list_all_iff zero_hexdigit)

lemma is_hex_drop: "is_hex s \<Longrightarrow> is_hex (drop n s)"
  by (auto simp: is_hex_def list_all_iff dest: in_set_dropD)

lemma length_py_last_n: "n \<le> length s \<Longrightarrow> length (py_last_n n s) = n"
  by (simp add: py_last_n_def)

text \<open>The hex part that lines 99-105 compute from the part after \<open>0x\<close>.\<close>

lemma format_campaign_address_0x:
  "format_campaign_address (Some (CHR ''0'' # CHR ''x'' # t)) =
     Some (''0x'' @ (if 40 < length t then py_last_n 40 t
                     else if length t < 40 then py_zfill 40 t else t))"
  by (simp add: format_campaign_address_def py_startswith_def Let_def)

lemma format_campaign_address_40:
  "length h = 40 \<Longrightarrow> format_campaign_address (Some (''0x'' @ h)) = Some (''0x'' @ h)"
  by (simp add: format_campaign_address_0x)

lemma format_campaign_address_other:
  "\<not> py_startswith r ''0x'' \<Longrightarrow> format_campaign_address (Some r) = Some r"
  by (simp add: format_campaign_address_def)

lemma format_campaign_address_length:
  "\<exists>h. format_campaign_address (Some (CHR ''0'' # CHR ''x'' # t)) = Some (''0x'' @ h) \<and> length h = 40"
  by (simp add: format_campaign_address_0x length_py_zfill length_py_last_n)

lemma format_campaign_address_idem:
  "format_campaign_address (format_campaign_address res) = format_campaign_address res"
proof (cases res)
  case None
  then show ?thesis by (simp add: format_campaign_address_def)
next
  case (Some r)
  show ?thesis
  proof (cases "py_startswith r ''0x''")
    case True
    then obtain t where r: "r = CHR ''0'' # CHR ''x'' # t"
      by (auto simp: startswith_0x)
    obtain h where h: "format_campaign_address (Some (CHR ''0'' # CHR ''x'' # t)) = Some (''0x'' @ h)"
      and l: "length h = 40"
      using format_campaign_address_length by blast
    show ?thesis
      using format_campaign_address_40 [OF l] by (simp add: Some r h)
  next
    case False
    then show ?thesis by (simp add: Some format_campaign_address_other)
  qed
qed

lemma fst_get_campaign_address:
  "fst (get_campaign_address e c f i w) =
     format_campaign_address
       (fst (run_cast_command e c [''call'', f, ''getCampaignAddress(uint256)'', py_str i] w))"
  by (simp add: get_campaign_address_def split: prod.split)

lemma parse_token_address_canonical:
  "parse_token_address result =
     (let parts = py_split CHR '','' (py_strip_chars ''()'' result)
      in if length parts \<ge> 9 \<and> py_startswith (py_strip (parts ! 8)) ''0x''
         then format_campaign_address (Some (py_strip (parts ! 8)))
         else None)"
proof -
  have "\<And>t. py_startswith t ''0x'' \<Longrightarrow> t \<noteq> []"
    by (auto simp: py_startswith_def)
  then show ?thesis
    by (auto simp: parse_token_address_def format_campaign_address_def Let_def)
qed

lemma is_hex_unsigned:
  assumes "is_hex s"
  shows "\<not> py_startswith s ''+'' \<and> \<not> py_startswith s ''-''"
proof (cases s)
  case Nil
  then show ?thesis by (simp add: py_startswith_def)
next
  case (Cons c cs)
  then have "c \<in> set hexdigits"
    using assms by (simp add: is_hex_def)
  moreover have "CHR ''+'' \<notin> set hexdigits" "CHR ''-'' \<notin> set hexdigits"
    by (simp_all add: hexdigits_def)
  ultimately show ?thesis
    using Cons by (auto simp: py_startswith_def)
qed

text \<open>
  Claim C5, as amended. For every executor result that starts with \<open>0x\<close>,
  \<open>get_campaign_address\<close> returns \<open>0x\<close> and exactly 40 characters: the last 40 of the
  part after \<open>0x\<close> when that part is longer, the part itself when it has 40. When the
  part after \<open>0x\<close> consists of hex digits, the 40 characters are hex digits, and a
  shorter part comes back with zeros in front. A result that does not start with
  \<open>0x\<close>, or no result, comes back unchanged, and formatting a formatted result changes
  nothing. \<open>0xABC\<close> becomes \<open>0x\<close>, 37 zeros and \<open>ABC\<close>.
  \<open>get_campaign_token_address\<close> gives the ninth field of the tuple the same form.
\<close>

theorem campaign_address_canonical:
  "(py_startswith r ''0x'' \<longrightarrow>
      (\<exists>h. format_campaign_address (Some r) = Some (''0x'' @ h) \<and> length h = 40
          \<and> (40 < length (drop 2 r) \<longrightarrow> h = drop (length (drop 2 r) - 40) (drop 2 r))
          \<and> (length (drop 2 r) = 40 \<longrightarrow> h = drop 2 r)
          \<and> (is_hex (drop 2 r) \<longrightarrow>
                is_hex h
                \<and> (length (drop 2 r) < 40
                     \<longrightarrow> h = replicate (40 - length (drop 2 r)) CHR ''0'' @ drop 2 r))))
   \<and> (\<not> py_startswith r ''0x'' \<longrightarrow> format_campaign_address (Some r) = Some r)
   \<and> format_campaign_address None = None
   \<and> format_campaign_address (format_campaign_address res) = format_campaign_address res
   \<and> fst (get_campaign_address e c f i w) =
       format_campaign_address
         (fst (run_cast_command e c [''call'', f, ''getCampaignAddress(uint256)'', py_str i] w))
   \<and> format_campaign_address (Some ''0xABC'') = Some (''0x'' @ replicate 37 CHR ''0'' @ ''ABC'')
   \<and> parse_token_address result =
       (let parts = py_split CHR '','' (py_strip_chars ''()'' result)
        in if length parts \<ge> 9 \<and> py_startswith (py_strip (parts ! 8)) ''0x''
           then format_campaign_address (Some (py_strip (parts ! 8)))
           else None)"
proof (intro conjI impI)
  assume "py_startswith r ''0x''"
  then obtain t where r: "r = CHR ''0'' # CHR ''x'' # t"
    by (auto simp: startswith_0x)
  let ?h = "if 40 < length t then py_last_n 40 t else if length t < 40 then py_zfill 40 t else t"
  have "format_campaign_address (Some r) = Some (''0x'' @ ?h)"
    by (simp add: r format_campaign_address_0x)
  moreover have "length ?h = 40"
    by (simp add: length_py_zfill length_py_last_n)
  moreover have "40 < length (drop 2 r) \<longrightarrow> ?h = drop (length (drop 2 r) - 40) (drop 2 r)"
    by (simp add: r py_last_n_def)
  moreover have "length (drop 2 r) = 40 \<longrightarrow> ?h = drop 2 r"
    by (simp add: r)
  moreover have "is_hex (drop 2 r) \<longrightarrow>
                   is_hex ?h
                   \<and> (length (drop 2 r) < 40
                        \<longrightarrow> ?h = replicate (40 - length (drop 2 r)) CHR ''0'' @ drop 2 r)"
  proof
    assume hex: "is_hex (drop 2 r)"
    then have "is_hex t" by (simp add: r)
    then have "\<not> py_startswith t ''+''" "\<not> py_startswith t ''-''"
      using is_hex_unsigned by blast+
    then have "length t < 40 \<longrightarrow> py_zfill 40 t = replicate (40 - length t) CHR ''0'' @ t"
      by (simp add: py_zfill_unsigned)
    moreover have "is_hex ?h"
      using \<open>is_hex t\<close> by (simp add: is_hex_py_zfill py_last_n_def is_hex_drop)
    ultimately show "is_hex ?h
                   \<and> (length (drop 2 r) < 40
                        \<longrightarrow> ?h = replicate (40 - length (drop 2 r)) CHR ''0'' @ drop 2 r)"
      by (simp add: r)
  qed
  ultimately show "\<exists>h. format_campaign_address (Some r) = Some (''0x'' @ h) \<and> length h = 40
          \<and> (40 < length (drop 2 r) \<longrightarrow> h = drop (length (drop 2 r) - 40) (drop 2 r))
          \<and> (length (drop 2 r) = 40 \<longrightarrow> h = drop 2 r)
          \<and> (is_hex (drop 2 r) \<longrightarrow>
                is_hex h
                \<and> (length (drop 2 r) < 40
                     \<longrightarrow> h = replicate (40 - length (drop 2 r)) CHR ''0'' @ drop 2 r))"
    by blast
next
  assume "\<not> py_startswith r ''0x''"
  then show "format_campaign_address (Some r) = Some r"
    by (rule format_campaign_address_other)
next
  show "format_campaign_address None = None"
    by (simp add: format_campaign_address_def)
next
  show "format_campaign_address (format_campaign_address res) = format_campaign_address res"
    by (rule format_campaign_address_idem)
next
  show "fst (get_campaign_address e c f i w) =
       format_campaign_address
         (fst (run_cast_command e c [''call'', f, ''getCampaignAddress(uint256)'', py_str i] w))"
    by (rule fst_get_campaign_address)
next
  show "format_campaign_address (Some ''0xABC'') = Some (''0x'' @ replicate 37 CHR ''0'' @ ''ABC'')"
    by (simp add: format_campaign_address_0x py_zfill_def eval_nat_numeral)
next
  show "parse_token_address result =
       (let parts = py_split CHR '','' (py_strip_chars ''()'' result)
        in if length parts \<ge> 9 \<and> py_startswith (py_strip (parts ! 8)) ''0x''
           then format_campaign_address (Some (py_strip (parts ! 8)))
           else None)"
    by (rule parse_token_address_canonical)
qed

text \<open>The two examples of the specification, and a result without the prefix.\<close>

theorem campaign_address_canonical_witness:
  "py_startswith ''0x00000000000000000000AbCdEf0123456789aBCdEf012345'' ''0x''
   \<and> is_hex ''00000000000000000000AbCdEf0123456789aBCdEf012345''
   \<and> format_campaign_address (Some ''0x00000000000000000000AbCdEf0123456789aBCdEf012345'')
       = Some ''0x000000000000AbCdEf0123456789aBCdEf012345''
   \<and> py_startswith ''0xABC'' ''0x'' \<and> is_hex ''ABC''
   \<and> format_campaign_address (Some ''0xABC'')
       = Some ''0x0000000000000000000000000000000000000ABC''
   \<and> is_hex ''0000000000000000000000000000000000000ABC''
   \<and> \<not> py_startswith ''abc'' ''0x''
   \<and> format_campaign_address (Some ''abc'') = Some ''abc''"
  using campaign_address_canonical
          [where r = "''0x00000000000000000000AbCdEf0123456789aBCdEf012345''"]
        campaign_address_canonical [where r = "''0xABC''"]
        campaign_address_canonical [where r = "''abc''"]
  by (simp add: py_startswith_def py_zfill_def py_last_n_def is_hex_def hexdigits_def
      eval_nat_numeral)

text \<open>
  Outside hex digits the claim fails as it is worded: \<open>zfill\<close> keeps a leading sign in
  front of the zeros, and characters that are no hex digits stay.
\<close>

theorem campaign_address_sign_counterexample:
  "py_startswith ''0x+ab'' ''0x''
   \<and> format_campaign_address (Some ''0x+ab'') = Some (''0x+'' @ replicate 37 CHR ''0'' @ ''ab'')
   \<and> format_campaign_address (Some ''0x+ab'') \<noteq> Some (''0x'' @ replicate 37 CHR ''0'' @ ''+ab'')
   \<and> py_startswith ''0xhash'' ''0x''
   \<and> format_campaign_address (Some ''0xhash'') = Some (''0x'' @ replicate 36 CHR ''0'' @ ''hash'')
   \<and> \<not> is_hex (replicate 36 CHR ''0'' @ ''hash'')"
  by (simp add: format_campaign_address_0x py_startswith_def py_zfill_def is_hex_def
      hexdigits_def eval_nat_numeral)


section \<open>Pair addresses\<close>

lemma format_pair_address_some:
  "r \<noteq> [] \<Longrightarrow> r \<noteq> zero_address \<Longrightarrow>
     format_pair_address (Some r) = Some (''0x'' @ py_zfill 40 (drop 2 r))"
  by (simp add: format_pair_address_def Let_def)

lemma fst_get_pair_address:
  "fst (get_pair_address e c a b w) =
     format_pair_address
       (fst (run_cast_command e c
               [''call'', FACTORY_ADDRESS, ''getPair(address,address)(address)'', a, b] w))"
  by (simp add: get_pair_address_def split: prod.split)

lemma py_zfill_long: "n \<le> length s \<Longrightarrow> py_zfill n s = s"
  by (simp add: py_zfill_def)

text \<open>
  Claim C10, as amended. For every non-empty executor result other than the 42-character
  all-zero address, \<open>get_pair_address\<close> returns \<open>0x\<close> followed by the part of the
  result after position 2, zero-filled to at least 40 characters: nothing is ever cut,
  so a part longer than 40 characters comes back whole and the output is longer than 42
  characters. An all-zero value of 64 hex digits is returned as an address, where the
  campaign-address form of the same value is the all-zero address. An empty result, no
  result and the all-zero address give no address.
\<close>

theorem pair_address_never_truncates:
  "(r \<noteq> [] \<and> r \<noteq> zero_address \<longrightarrow>
      format_pair_address (Some r) = Some (''0x'' @ py_zfill 40 (drop 2 r))
      \<and> length (py_zfill 40 (drop 2 r)) = max 40 (length (drop 2 r))
      \<and> (40 < length (drop 2 r) \<longrightarrow> py_zfill 40 (drop 2 r) = drop 2 r))
   \<and> format_pair_address (Some []) = None
   \<and> format_pair_address (Some zero_address) = None
   \<and> format_pair_address None = None
   \<and> length zeros64 = 66
   \<and> format_pair_address (Some zeros64) = Some zeros64
   \<and> format_campaign_address (Some zeros64) = Some zero_address
   \<and> fst (get_pair_address e c a b w) =
       format_pair_address
         (fst (run_cast_command e c
                 [''call'', FACTORY_ADDRESS, ''getPair(address,address)(address)'', a, b] w))"
proof (intro conjI impI)
  assume "r \<noteq> [] \<and> r \<noteq> zero_address"
  then show "format_pair_address (Some r) = Some (''0x'' @ py_zfill 40 (drop 2 r))"
    by (simp add: format_pair_address_some)
next
  show "length (py_zfill 40 (drop 2 r)) = max 40 (length (drop 2 r))"
    by (rule length_py_zfill)
next
  assume "40 < length (drop 2 r)"
  then show "py_zfill 40 (drop 2 r) = drop 2 r"
    by (simp add: py_zfill_long)
next
  show "format_pair_address (Some []) = None"
    by (simp add: format_pair_address_def)
next
  show "format_pair_address (Some zero_address) = None"
    by (simp add: format_pair_address_def)
next
  show "format_pair_address None = None"
    by (simp add: format_pair_address_def)
next
  show "length zeros64 = 66"
    by (simp add: zeros64_def)
next
  show "format_pair_address (Some zeros64) = Some zeros64"
    by (simp add: format_pair_address_def zeros64_def zero_address_def py_zfill_def Let_def)
next
  show "format_campaign_address (Some zeros64) = Some zero_address"
    by (simp add: format_campaign_address_def zeros64_def zero_address_def py_last_n_def
        py_startswith_def Let_def)
next
  show "fst (get_pair_address e c a b w) =
       format_pair_address
         (fst (run_cast_command e c
                 [''call'', FACTORY_ADDRESS, ''getPair(address,address)(address)'', a, b] w))"
    by (rule fst_get_pair_address)
qed

text \<open>A short result is filled, a long one is kept whole.\<close>

theorem pair_address_never_truncates_witness:
  "''0xABC'' \<noteq> [] \<and> ''0xABC'' \<noteq> zero_address
   \<and> format_pair_address (Some ''0xABC'') = Some ''0x0000000000000000000000000000000000000ABC''
   \<and> zeros64 \<noteq> [] \<and> zeros64 \<noteq> zero_address \<and> 40 < length (drop 2 zeros64)
   \<and> format_pair_address (Some zeros64) = Some (''0x'' @ drop 2 zeros64)"
  using pair_address_never_truncates [where r = "''0xABC''"]
        pair_address_never_truncates [where r = zeros64]
  by (simp add: zeros64_def zero_address_def py_zfill_def eval_nat_numeral)

text \<open>
  A client that exits with code 0 and prints nothing gives the empty result, which is
  not absent and not the all-zero address; no address comes back for it.
\<close>

theorem pair_address_empty_result_counterexample:
  "fst (run_cast_command (env_of (\<lambda>n cmd. Completed 0 [] [])) demo_cast
          [''call'', FACTORY_ADDRESS, ''getPair(address,address)(address)'', ''0xA'', ''0xB'']
          world0) = Some []
   \<and> fst (get_pair_address (env_of (\<lambda>n cmd. Completed 0 [] [])) demo_cast ''0xA'' ''0xB'' world0)
       = None
   \<and> fst (get_pair_address (env_of (\<lambda>n cmd. Completed 0 [] [])) demo_cast ''0xA'' ''0xB'' world0)
       \<noteq> Some (''0x'' @ py_zfill 40 (drop 2 []))"
  by (simp add: fst_get_pair_address result_run_cast_command format_pair_address_def
      env_of_def py_strip_def)

section \<open>Balances\<close>

lemma fst_get_balance:
  "fst (get_balance e c t a w) =
     (case fst (run_cast_command e c [''call'', t, ''balanceOf(address)(uint256)'', a] w) of
        None \<Rightarrow> Inr 0
      | Some r \<Rightarrow> (if r = [] then Inr 0
                   else (case py_int r 16 of
                           Some v \<Rightarrow> Inr v
                         | None \<Rightarrow> Inl (ValueError_int r 16))))"
  by (simp add: get_balance_def split: prod.split option.split)

lemma py_int_error: "py_int ''error'' 16 = None"
  by (simp add: py_int_def py_strip_def py_isspace_def parse_unsigned_def digit_val_def
      upper_letters_def)

text \<open>
  Claim C9. \<open>get_balance\<close> returns 0 when the executor gives no result or the empty
  one. For a non-empty result that is no base-16 literal, \<open>int(result, 16)\<close> raises and
  the exception leaves \<open>get_balance\<close>; \<open>error\<close> is such a result.
\<close>

theorem get_balance_zero_or_raises:
  "(\<not> truthy (fst (run_cast_command e c [''call'', t, ''balanceOf(address)(uint256)'', a] w))
      \<longrightarrow> fst (get_balance e c t a w) = Inr 0)
   \<and> (fst (run_cast_command e c [''call'', t, ''balanceOf(address)(uint256)'', a] w) = Some r
        \<and> r \<noteq> [] \<and> py_int r 16 = None
      \<longrightarrow> fst (get_balance e c t a w) = Inl (ValueError_int r 16))
   \<and> py_int ''error'' 16 = None
   \<and> fst (get_balance (env_of (\<lambda>n cmd. Completed 0 ''error'' [])) demo_cast ''0xT'' ''0xA'' world0)
       = Inl (ValueError_int ''error'' 16)"
proof (intro conjI impI)
  assume "\<not> truthy (fst (run_cast_command e c [''call'', t, ''balanceOf(address)(uint256)'', a] w))"
  then show "fst (get_balance e c t a w) = Inr 0"
    by (cases "fst (run_cast_command e c [''call'', t, ''balanceOf(address)(uint256)'', a] w)")
       (simp_all add: fst_get_balance)
next
  assume "fst (run_cast_command e c [''call'', t, ''balanceOf(address)(uint256)'', a] w) = Some r
        \<and> r \<noteq> [] \<and> py_int r 16 = None"
  then show "fst (get_balance e c t a w) = Inl (ValueError_int r 16)"
    by (simp add: fst_get_balance)
next
  show "py_int ''error'' 16 = None"
    by (rule py_int_error)
next
  show "fst (get_balance (env_of (\<lambda>n cmd. Completed 0 ''error'' [])) demo_cast ''0xT'' ''0xA'' world0)
       = Inl (ValueError_int ''error'' 16)"
    by (simp add: fst_get_balance result_run_cast_command py_int_error env_of_def py_strip_def
        py_isspace_def)
qed

text \<open>A failed read gives 0; the output \<open>error\<close> raises.\<close>

theorem get_balance_zero_or_raises_witness:
  "\<not> truthy (fst (run_cast_command (env_of (\<lambda>n cmd. Completed 1 [] ''boom'')) demo_cast
                    [''call'', ''0xT'', ''balanceOf(address)(uint256)'', ''0xA''] world0))
   \<and> fst (get_balance (env_of (\<lambda>n cmd. Completed 1 [] ''boom'')) demo_cast ''0xT'' ''0xA'' world0)
       = Inr 0
   \<and> fst (run_cast_command (env_of (\<lambda>n cmd. Completed 0 '' error '' [])) demo_cast
             [''call'', ''0xT'', ''balanceOf(address)(uint256)'', ''0xA''] world0) = Some ''error''
   \<and> fst (get_balance (env_of (\<lambda>n cmd. Completed 0 '' error '' [])) demo_cast ''0xT'' ''0xA'' world0)
       = Inl (ValueError_int ''error'' 16)"
  using get_balance_zero_or_raises
          [where e = "env_of (\<lambda>n cmd. Completed 1 [] ''boom'')" and c = demo_cast
             and t = "''0xT''" and a = "''0xA''" and w = world0]
        get_balance_zero_or_raises
          [where e = "env_of (\<lambda>n cmd. Completed 0 '' error '' [])" and c = demo_cast
             and t = "''0xT''" and a = "''0xA''" and w = world0 and r = "''error''"]
  by (simp add: result_run_cast_command env_of_def py_strip_def py_isspace_def)

section \<open>The configuration loader\<close>

lemma py_contains_iff: "py_contains sub s \<longleftrightarrow> (\<exists>p q. s = p @ sub @ q)"
proof (induction s)
  case Nil
  then show ?case by auto
next
  case (Cons c cs)
  show ?case
  proof
    assume "py_contains sub (c # cs)"
    then consider "prefix sub (c # cs)" | "py_contains sub cs" by auto
    then show "\<exists>p q. c # cs = p @ sub @ q"
    proof cases
      case 1
      then obtain q where "c # cs = sub @ q" by (auto simp: prefix_def)
      then have "c # cs = [] @ sub @ q" by simp
      then show ?thesis by blast
    next
      case 2
      then obtain p q where "cs = p @ sub @ q" using Cons.IH by blast
      then have "c # cs = (c # p) @ sub @ q" by simp
      then show ?thesis by blast
    qed
  next
    assume "\<exists>p q. c # cs = p @ sub @ q"
    then obtain p q where pq: "c # cs = p @ sub @ q" by blast
    show "py_contains sub (c # cs)"
    proof (cases p)
      case Nil
      then have "prefix sub (c # cs)" using pq by (simp add: prefix_def)
      then show ?thesis by simp
    next
      case (Cons d p')
      then have "cs = p' @ sub @ q" using pq by simp
      then have "py_contains sub cs" using Cons.IH by blast
      then show ?thesis by simp
    qed
  qed
qed

lemma py_join_contains:
  "x \<in> set xs \<Longrightarrow> \<exists>p q. py_join sep xs = p @ x @ q"
proof (induction sep xs rule: py_join.induct)
  case (1 sep)
  then show ?case by simp
next
  case (2 sep y)
  then have "py_join sep [y] = [] @ x @ []" by simp
  then show ?case by blast
next
  case (3 sep y z zs)
  show ?case
  proof (cases "x = y")
    case True
    then have "py_join sep (y # z # zs) = [] @ x @ (sep @ py_join sep (z # zs))" by simp
    then show ?thesis by blast
  next
    case False
    then have "x \<in> set (z # zs)" using 3 by simp
    then obtain p q where "py_join sep (z # zs) = p @ x @ q" using 3 by blast
    then have "py_join sep (y # z # zs) = (y @ sep @ p) @ x @ q" by simp
    then show ?thesis by blast
  qed
qed

lemma message_names:
  "x \<in> set xs \<Longrightarrow> py_contains x (pre @ py_join sep xs)"
proof -
  assume "x \<in> set xs"
  then obtain p q where "py_join sep xs = p @ x @ q"
    using py_join_contains by blast
  then have "pre @ py_join sep xs = (pre @ p) @ x @ q" by simp
  then show ?thesis
    unfolding py_contains_iff by blast
qed

lemma load_config_missing:
  assumes "\<exists>v \<in> set required_variables. \<not> truthy (getenv v)"
  shows "load_config getenv =
           Inl (ValueError (''Missing environment variables: ''
                  @ py_join '', '' (filter (\<lambda>v. \<not> truthy (getenv v)) required_variables)))"
  using assms by (simp add: load_config_def required_variables_def Let_def)

lemma load_config_present:
  assumes "\<forall>v \<in> set required_variables. truthy (getenv v)"
  shows "load_config getenv =
           Inr \<lparr>config_rpc_url = value_of (getenv ''RPC_URL''),
                creator_private_key = value_of (getenv ''CREATOR_PRIVATE_KEY''),
                donor_private_key = value_of (getenv ''DONOR_PRIVATE_KEY''),
                addresses = \<lparr>factory = value_of (getenv ''CROWDFUNDING_FACTORY_ADDRESS''),
                             usdc = value_of (getenv ''USDC_TOKEN_ADDRESS'')\<rparr>,
                funding_goal = 1000000000,
                campaign_duration = 120,
                min_contribution = 1000000\<rparr>"
  using assms by (simp add: load_config_def required_variables_def Let_def)

text \<open>
  Claim C8. When one or more of the five required variables is unset or empty,
  \<open>_load_config\<close> raises a \<open>ValueError\<close> whose message lists every missing name, so
  every missing name occurs in it; when all five are set, the record holds their values,
  the funding goal 1,000,000,000, the duration 120 and the minimum contribution
  1,000,000.
\<close>

theorem load_config_names_every_missing_variable:
  "((\<exists>v \<in> set required_variables. \<not> truthy (getenv v)) \<longrightarrow>
      (\<exists>msg. load_config getenv = Inl (ValueError msg)
         \<and> msg = ''Missing environment variables: ''
                  @ py_join '', '' (filter (\<lambda>v. \<not> truthy (getenv v)) required_variables)
         \<and> (\<forall>v \<in> set required_variables. \<not> truthy (getenv v) \<longrightarrow> py_contains v msg)))
   \<and> ((\<forall>v \<in> set required_variables. truthy (getenv v)) \<longrightarrow>
      (\<exists>cfg. load_config getenv = Inr cfg
         \<and> funding_goal cfg = 1000000000
         \<and> campaign_duration cfg = 120
         \<and> min_contribution cfg = 1000000
         \<and> config_rpc_url cfg = value_of (getenv ''RPC_URL'')
         \<and> creator_private_key cfg = value_of (getenv ''CREATOR_PRIVATE_KEY'')
         \<and> donor_private_key cfg = value_of (getenv ''DONOR_PRIVATE_KEY'')
         \<and> factory (addresses cfg) = value_of (getenv ''CROWDFUNDING_FACTORY_ADDRESS'')
         \<and> usdc (addresses cfg) = value_of (getenv ''USDC_TOKEN_ADDRESS'')))"
proof (intro conjI impI)
  assume m: "\<exists>v \<in> set required_variables. \<not> truthy (getenv v)"
  let ?missing = "filter (\<lambda>v. \<not> truthy (getenv v)) required_variables"
  let ?msg = "''Missing environment variables: '' @ py_join '', '' ?missing"
  have "load_config getenv = Inl (ValueError ?msg)"
    using m by (rule load_config_missing)
  moreover have "\<forall>v \<in> set required_variables. \<not> truthy (getenv v) \<longrightarrow> py_contains v ?msg"
  proof (intro ballI impI)
    fix v
    assume "v \<in> set required_variables" and "\<not> truthy (getenv v)"
    then have "v \<in> set ?missing" by simp
    then show "py_contains v ?msg" by (rule message_names)
  qed
  ultimately show "\<exists>msg. load_config getenv = Inl (ValueError msg)
         \<and> msg = ?msg
         \<and> (\<forall>v \<in> set required_variables. \<not> truthy (getenv v) \<longrightarrow> py_contains v msg)"
    by blast
next
  assume "\<forall>v \<in> set required_variables. truthy (getenv v)"
  then have "load_config getenv =
           Inr \<lparr>config_rpc_url = value_of (getenv ''RPC_URL''),
                creator_private_key = value_of (getenv ''CREATOR_PRIVATE_KEY''),
                donor_private_key = value_of (getenv ''DONOR_PRIVATE_KEY''),
                addresses = \<lparr>factory = value_of (getenv ''CROWDFUNDING_FACTORY_ADDRESS''),
                             usdc = value_of (getenv ''USDC_TOKEN_ADDRESS'')\<rparr>,
                funding_goal = 1000000000,
                campaign_duration = 120,
                min_contribution = 1000000\<rparr>"
    by (rule load_config_present)
  then show "\<exists>cfg. load_config getenv = Inr cfg
         \<and> funding_goal cfg = 1000000000
         \<and> campaign_duration cfg = 120
         \<and> min_contribution cfg = 1000000
         \<and> config_rpc_url cfg = value_of (getenv ''RPC_URL'')
         \<and> creator_private_key cfg = value_of (getenv ''CREATOR_PRIVATE_KEY'')
         \<and> donor_private_key cfg = value_of (getenv ''DONOR_PRIVATE_KEY'')
         \<and> factory (addresses cfg) = value_of (getenv ''CROWDFUNDING_FACTORY_ADDRESS'')
         \<and> usdc (addresses cfg) = value_of (getenv ''USDC_TOKEN_ADDRESS'')"
    by simp
qed

text \<open>The partial environment of the specification, and a full one.\<close>

theorem load_config_names_every_missing_variable_witness:
  "\<not> truthy (getenv_partial ''DONOR_PRIVATE_KEY'')
   \<and> \<not> truthy (getenv_partial ''USDC_TOKEN_ADDRESS'')
   \<and> load_config getenv_partial =
       Inl (ValueError ''Missing environment variables: DONOR_PRIVATE_KEY, USDC_TOKEN_ADDRESS'')
   \<and> py_contains ''DONOR_PRIVATE_KEY''
        ''Missing environment variables: DONOR_PRIVATE_KEY, USDC_TOKEN_ADDRESS''
   \<and> py_contains ''USDC_TOKEN_ADDRESS''
        ''Missing environment variables: DONOR_PRIVATE_KEY, USDC_TOKEN_ADDRESS''
   \<and> load_config getenv_full =
       Inr \<lparr>config_rpc_url = ''http://rpc'', creator_private_key = ''0xC'',
            donor_private_key = ''0xD'', addresses = \<lparr>factory = ''0xF'', usdc = ''0xU''\<rparr>,
            funding_goal = 1000000000, campaign_duration = 120, min_contribution = 1000000\<rparr>"
  using load_config_names_every_missing_variable [of getenv_partial]
        load_config_names_every_missing_variable [of getenv_full]
  by (simp add: required_variables_def getenv_partial_def getenv_full_def load_config_def Let_def)

section \<open>The end-of-campaign poll\<close>

lemma wait_loop_outside:
  "\<not> clock w - start < real_of_int max_wait \<Longrightarrow>
     wait_loop e cfg a start max_wait w = (Inr False, w)"
  by (simp add: wait_loop.simps)

lemma wait_loop_inside:
  "clock w - start < real_of_int max_wait \<Longrightarrow>
     wait_loop e cfg a start max_wait w =
       (case poll_once e cfg a w of
          (Return b, w') \<Rightarrow> (Inr b, w')
        | (Raise x, w') \<Rightarrow> (Inl x, w')
        | (Continue, w') \<Rightarrow> wait_loop e cfg a start max_wait w')"
  by (subst wait_loop.simps) simp

lemma poll_once_observes:
  assumes "read_campaign_state e cfg a (update_campaign_state e cfg a w) = (Some s, w3)"
    and "s \<noteq> []" and "py_int s 16 = Some state"
  shows "poll_once e cfg a w =
           (if state = 0 then (Continue, sleep 10 w3)
            else if state = 1 then (Return True, w3)
            else if state = 2 then (Return False, w3)
            else (Continue, sleep 10 w3))"
  using assms by (simp add: poll_once_def)

lemma wait_loop_succeeded:
  assumes "clock w - start < real_of_int max_wait"
    and "read_campaign_state e cfg a (update_campaign_state e cfg a w) = (Some s, w3)"
    and "s \<noteq> []" and "py_int s 16 = Some 1"
  shows "wait_loop e cfg a start max_wait w = (Inr True, w3)"
  using assms(1) poll_once_observes [OF assms(2,3,4)]
  by (simp add: wait_loop_inside)

lemma wait_loop_failed:
  assumes "clock w - start < real_of_int max_wait"
    and "read_campaign_state e cfg a (update_campaign_state e cfg a w) = (Some s, w3)"
    and "s \<noteq> []" and "py_int s 16 = Some 2"
  shows "wait_loop e cfg a start max_wait w = (Inr False, w3)"
  using assms(1) poll_once_observes [OF assms(2,3,4)]
  by (simp add: wait_loop_inside)

lemma poll_once_Return:
  assumes "poll_once e cfg a w = (Return b, w')"
  shows "\<exists>s. read_campaign_state e cfg a (update_campaign_state e cfg a w) = (Some s, w')
              \<and> s \<noteq> [] \<and> py_int s 16 = Some (if b then 1 else 2)"
proof -
  let ?w2 = "update_campaign_state e cfg a w"
  obtain r w3 where h: "read_campaign_state e cfg a ?w2 = (r, w3)"
    by (cases "read_campaign_state e cfg a ?w2")
  show ?thesis
    using assms by (auto simp: poll_once_def h split: option.splits if_splits)
qed

lemma wait_loop_returns_true:
  "fst (wait_loop e cfg a start max_wait w) = Inr True \<Longrightarrow>
     \<exists>w2 s. read_campaign_state e cfg a w2 = (Some s, snd (wait_loop e cfg a start max_wait w))
            \<and> s \<noteq> [] \<and> py_int s 16 = Some 1"
proof (induction e cfg a start max_wait w rule: wait_loop.induct)
  case (1 e cfg a start max_wait w)
  show ?case
  proof (cases "clock w - start < real_of_int max_wait")
    case True
    obtain p w' where pw: "poll_once e cfg a w = (p, w')"
      by (cases "poll_once e cfg a w")
    show ?thesis
    proof (cases p)
      case (Return b)
      then have r: "wait_loop e cfg a start max_wait w = (Inr b, w')"
        using True pw by (simp add: wait_loop_inside)
      then have b by (metis "1.prems" fst_conv sum.inject(2))
      then have "poll_once e cfg a w = (Return True, w')" using pw Return by simp
      then obtain s where
        "read_campaign_state e cfg a (update_campaign_state e cfg a w) = (Some s, w')"
        "s \<noteq> []" "py_int s 16 = Some 1"
        using poll_once_Return by fastforce
      then show ?thesis using r by auto
    next
      case (Raise x)
      then have "wait_loop e cfg a start max_wait w = (Inl x, w')"
        using True pw by (simp add: wait_loop_inside)
      then show ?thesis using "1.prems" by simp
    next
      case Continue
      then have eq: "wait_loop e cfg a start max_wait w = wait_loop e cfg a start max_wait w'"
        using True pw by (simp add: wait_loop_inside)
      show ?thesis
        using "1.IH" [OF True pw [symmetric] Continue] "1.prems" by (simp add: eq)
    qed
  next
    case False
    then show ?thesis using "1.prems" by (simp add: wait_loop_outside)
  qed
qed

lemma heads_Suc_right:
  "heads e cfg a w (Suc k) = snd (poll_once e cfg a (heads e cfg a w k))"
  by (induction k arbitrary: w) simp_all

lemma poll_once_quiet:
  assumes "quiet_read e cfg a h"
  shows "fst (poll_once e cfg a h) = Continue"
proof -
  let ?w2 = "update_campaign_state e cfg a h"
  obtain r w3 where h: "read_campaign_state e cfg a ?w2 = (r, w3)"
    by (cases "read_campaign_state e cfg a ?w2")
  have "case r of None \<Rightarrow> True | Some s \<Rightarrow> s = [] \<or> py_int s 16 = Some 0"
    using assms h by (simp add: quiet_read_def)
  then show ?thesis
    by (auto simp: poll_once_def h split: option.splits)
qed

lemma wait_loop_continue:
  assumes "clock w - start < real_of_int max_wait"
    and "fst (poll_once e cfg a w) = Continue"
  shows "wait_loop e cfg a start max_wait w
           = wait_loop e cfg a start max_wait (snd (poll_once e cfg a w))"
proof -
  obtain p w' where pw: "poll_once e cfg a w = (p, w')"
    by (cases "poll_once e cfg a w")
  then show ?thesis
    using assms by (simp add: wait_loop_inside)
qed

lemma clock_after_continue:
  assumes "fst (poll_once e cfg a w) = Continue"
  shows "clock w + 10 \<le> clock (snd (poll_once e cfg a w))"
proof -
  have "poll_once e cfg a w = (Continue, snd (poll_once e cfg a w))"
    using assms by (metis prod.collapse)
  then show ?thesis
    by (rule poll_once_Continue)
qed

lemma wait_loop_heads:
  "(\<forall>k<n. clock (heads e cfg a w k) - start < real_of_int max_wait
          \<and> quiet_read e cfg a (heads e cfg a w k)) \<Longrightarrow>
   wait_loop e cfg a start max_wait w = wait_loop e cfg a start max_wait (heads e cfg a w n)"
proof (induction n arbitrary: w)
  case 0
  show ?case by simp
next
  case (Suc n)
  let ?w' = "snd (poll_once e cfg a w)"
  have first: "clock w - start < real_of_int max_wait" "quiet_read e cfg a w"
    using Suc.prems [rule_format, of 0] by simp_all
  have "fst (poll_once e cfg a w) = Continue"
    using first(2) by (rule poll_once_quiet)
  then have step: "wait_loop e cfg a start max_wait w = wait_loop e cfg a start max_wait ?w'"
    using first(1) by (intro wait_loop_continue)
  have "\<forall>k<n. clock (heads e cfg a ?w' k) - start < real_of_int max_wait
            \<and> quiet_read e cfg a (heads e cfg a ?w' k)"
  proof (intro allI impI)
    fix k assume "k < n"
    then show "clock (heads e cfg a ?w' k) - start < real_of_int max_wait
               \<and> quiet_read e cfg a (heads e cfg a ?w' k)"
      using Suc.prems [rule_format, of "Suc k"] by simp
  qed
  then have "wait_loop e cfg a start max_wait ?w'
               = wait_loop e cfg a start max_wait (heads e cfg a ?w' n)"
    by (rule Suc.IH)
  then show ?case
    using step by simp
qed

lemma wait_loop_times_out:
  "(\<forall>k. clock (heads e cfg a w k) - start < real_of_int max_wait
          \<longrightarrow> quiet_read e cfg a (heads e cfg a w k)) \<Longrightarrow>
   \<exists>n. (\<forall>k<n. clock (heads e cfg a w k) - start < real_of_int max_wait
               \<and> 10 * real k \<le> clock (heads e cfg a w k) - clock w)
        \<and> real_of_int max_wait \<le> clock (heads e cfg a w n) - start
        \<and> wait_loop e cfg a start max_wait w = (Inr False, heads e cfg a w n)"
proof (induction e cfg a start max_wait w rule: wait_loop.induct)
  case (1 e cfg a start max_wait w)
  show ?case
  proof (cases "clock w - start < real_of_int max_wait")
    case False
    then have "wait_loop e cfg a start max_wait w = (Inr False, heads e cfg a w 0)"
      by (simp add: wait_loop_outside)
    moreover have "real_of_int max_wait \<le> clock (heads e cfg a w 0) - start"
      using False by simp
    ultimately show ?thesis
      by (intro exI [of _ 0]) simp
  next
    case True
    let ?w' = "snd (poll_once e cfg a w)"
    have "quiet_read e cfg a w"
      using "1.prems" [rule_format, of 0] True by simp
    then have c: "fst (poll_once e cfg a w) = Continue"
      by (rule poll_once_quiet)
    then have p: "poll_once e cfg a w = (Continue, ?w')"
      by (metis prod.collapse)
    have later: "clock w + 10 \<le> clock ?w'"
      using c by (rule clock_after_continue)
    have step: "wait_loop e cfg a start max_wait w = wait_loop e cfg a start max_wait ?w'"
      using True c by (rule wait_loop_continue)
    have "\<forall>k. clock (heads e cfg a ?w' k) - start < real_of_int max_wait
              \<longrightarrow> quiet_read e cfg a (heads e cfg a ?w' k)"
    proof (intro allI impI)
      fix k assume "clock (heads e cfg a ?w' k) - start < real_of_int max_wait"
      then show "quiet_read e cfg a (heads e cfg a ?w' k)"
        using "1.prems" [rule_format, of "Suc k"] by simp
    qed
    then obtain n where n:
      "\<forall>k<n. clock (heads e cfg a ?w' k) - start < real_of_int max_wait
              \<and> 10 * real k \<le> clock (heads e cfg a ?w' k) - clock ?w'"
      "real_of_int max_wait \<le> clock (heads e cfg a ?w' n) - start"
      "wait_loop e cfg a start max_wait ?w' = (Inr False, heads e cfg a ?w' n)"
      using "1.IH" [OF True p [symmetric] refl] by blast
    have "\<forall>k<Suc n. clock (heads e cfg a w k) - start < real_of_int max_wait
              \<and> 10 * real k \<le> clock (heads e cfg a w k) - clock w"
    proof (intro allI impI)
      fix k assume k: "k < Suc n"
      show "clock (heads e cfg a w k) - start < real_of_int max_wait
              \<and> 10 * real k \<le> clock (heads e cfg a w k) - clock w"
      proof (cases k)
        case 0
        then show ?thesis using True by simp
      next
        case (Suc j)
        then have "j < n" using k by simp
        then have "clock (heads e cfg a ?w' j) - start < real_of_int max_wait"
          and "10 * real j \<le> clock (heads e cfg a ?w' j) - clock ?w'"
          using n(1) by simp_all
        then show ?thesis
          using Suc later by simp
      qed
    qed
    moreover have "real_of_int max_wait \<le> clock (heads e cfg a w (Suc n)) - start"
      using n(2) by simp
    moreover have "wait_loop e cfg a start max_wait w = (Inr False, heads e cfg a w (Suc n))"
      using step n(3) by simp
    ultimately show ?thesis
      by blast
  qed
qed


lemma wait_at_iteration:
  assumes "\<forall>k<n. clock (heads e cfg a w k) - clock w < real_of_int max_wait
                \<and> quiet_read e cfg a (heads e cfg a w k)"
  shows "wait_for_campaign_end e cfg a max_wait w
           = wait_loop e cfg a (clock w) max_wait (heads e cfg a w n)"
  using wait_loop_heads [OF assms] by (simp add: wait_for_campaign_end_def)

lemma py_int_small:
  "py_int ''0'' 16 = Some 0" "py_int ''1'' 16 = Some 1" "py_int ''2'' 16 = Some 2"
  by (simp_all add: py_int_def py_strip_def py_isspace_def parse_unsigned_def digit_val_def
      upper_letters_def)

lemma read_campaign_state_env_printing:
  "\<not> py_isspace (hd out) \<Longrightarrow> \<not> py_isspace (last out) \<Longrightarrow> out \<noteq> [] \<Longrightarrow>
     read_campaign_state (env_printing out) cfg a w
       = (Some out, snd (read_campaign_state (env_printing out) cfg a w))"
proof -
  assume h: "\<not> py_isspace (hd out)" "\<not> py_isspace (last out)" "out \<noteq> []"
  then have "dropWhile py_isspace out = out"
    by (cases out) simp_all
  moreover have "dropWhile py_isspace (rev out) = rev out"
    using h by (cases "rev out") (simp_all add: last_rev [symmetric] hd_rev)
  ultimately have "py_strip out = out"
    by (simp add: py_strip_def)
  then have "fst (read_campaign_state (env_printing out) cfg a w) = Some out"
    by (simp add: read_campaign_state_def result_run_cast_command env_printing_def env_of_def)
  then show ?thesis
    by (metis prod.collapse)
qed

lemmas poll_unfold =
  poll_once_def read_campaign_state_def update_campaign_state_def run_cast_command_def
  subprocess_run_def log_line_def sleep_def py_strip_def py_isspace_def Let_def

lemma printing_0_step:
  "fst (poll_once (env_printing ''0'') cfg a w) = Continue
   \<and> calls (snd (poll_once (env_printing ''0'') cfg a w)) = calls w + 2
   \<and> clock (snd (poll_once (env_printing ''0'') cfg a w)) = clock w + 17"
  by (simp add: poll_unfold env_printing_def env_of_def py_int_small)

lemma printing_0_quiet: "quiet_read (env_printing ''0'') cfg a w"
  by (simp add: quiet_read_def poll_unfold env_printing_def env_of_def py_int_small)

lemma printing_0_heads:
  "calls (heads (env_printing ''0'') cfg a w k) = calls w + 2 * k
   \<and> clock (heads (env_printing ''0'') cfg a w k) = clock w + 17 * real k"
proof (induction k)
  case 0
  show ?case by simp
next
  case (Suc k)
  then show ?case
    using printing_0_step [of cfg a "heads (env_printing ''0'') cfg a w k"]
    by (simp only: heads_Suc_right) (simp add: algebra_simps)
qed

lemma slow_step:
  assumes "calls w \<noteq> 14" and "calls w \<noteq> 15"
  shows "fst (poll_once slow_env cfg a w) = Continue
   \<and> calls (snd (poll_once slow_env cfg a w)) = calls w + 2
   \<and> clock (snd (poll_once slow_env cfg a w)) = clock w + 21
   \<and> fst (read_campaign_state slow_env cfg a (update_campaign_state slow_env cfg a w)) = Some ''0''
   \<and> clock (snd (read_campaign_state slow_env cfg a (update_campaign_state slow_env cfg a w)))
       = clock w + 11"
  using assms by (simp add: poll_unfold slow_env_def py_int_small)

lemma slow_last:
  assumes "calls w = 14"
  shows "fst (read_campaign_state slow_env cfg a (update_campaign_state slow_env cfg a w)) = Some ''1''
   \<and> clock (snd (read_campaign_state slow_env cfg a (update_campaign_state slow_env cfg a w)))
       = clock w + 11"
  using assms by (simp add: poll_unfold slow_env_def)

lemma slow_heads:
  "k \<le> 7 \<Longrightarrow> calls (heads slow_env cfg a world0 k) = 2 * k
      \<and> clock (heads slow_env cfg a world0 k) = 21 * real k"
proof (induction k)
  case 0
  show ?case by (simp add: world0_def)
next
  case (Suc k)
  then have ih: "calls (heads slow_env cfg a world0 k) = 2 * k"
      "clock (heads slow_env cfg a world0 k) = 21 * real k"
    by simp_all
  have "calls (heads slow_env cfg a world0 k) \<noteq> 14" "calls (heads slow_env cfg a world0 k) \<noteq> 15"
    using Suc.prems ih(1) by presburger+
  then show ?case
    using slow_step [of "heads slow_env cfg a world0 k" cfg a] ih
    by (simp only: heads_Suc_right) (simp add: algebra_simps)
qed

lemma slow_observation:
  "k \<le> 6 \<Longrightarrow> observation slow_env cfg a world0 k = (Some ''0'', 21 * real k + 11)"
proof -
  assume k: "k \<le> 6"
  then have h: "calls (heads slow_env cfg a world0 k) = 2 * k"
      "clock (heads slow_env cfg a world0 k) = 21 * real k"
    using slow_heads [of k cfg a] by simp_all
  have "calls (heads slow_env cfg a world0 k) \<noteq> 14" "calls (heads slow_env cfg a world0 k) \<noteq> 15"
    using k h(1) by presburger+
  then show ?thesis
    using slow_step [of "heads slow_env cfg a world0 k" cfg a] h
    by (simp add: observation_def Let_def world0_def)
qed

lemma slow_observation_7:
  "observation slow_env cfg a world0 7 = (Some ''1'', 158)"
proof -
  have h: "calls (heads slow_env cfg a world0 7) = 14"
      "clock (heads slow_env cfg a world0 7) = 147"
    using slow_heads [of 7 cfg a] by simp_all
  show ?thesis
    using slow_last [OF h(1), of cfg a] h
    by (simp add: observation_def Let_def world0_def)
qed

lemma slow_quiet: "k \<le> 6 \<Longrightarrow> quiet_read slow_env cfg a (heads slow_env cfg a world0 k)"
  using slow_observation [of k cfg a]
  by (simp add: observation_def quiet_read_def Let_def py_int_small)

lemma slow_window:
  "\<forall>k<7. clock (heads slow_env cfg a world0 k) - clock world0 < real_of_int default_max_wait
          \<and> quiet_read slow_env cfg a (heads slow_env cfg a world0 k)"
proof (intro allI impI)
  fix k :: nat assume k: "k < 7"
  then have "clock (heads slow_env cfg a world0 k) = 21 * real k"
    using slow_heads [of k cfg a] by simp
  moreover have "21 * real k < 150"
    using k by simp
  moreover have "quiet_read slow_env cfg a (heads slow_env cfg a world0 k)"
    using k by (intro slow_quiet) simp
  ultimately show "clock (heads slow_env cfg a world0 k) - clock world0
                     < real_of_int default_max_wait
          \<and> quiet_read slow_env cfg a (heads slow_env cfg a world0 k)"
    by (simp add: world0_def default_max_wait_def)
qed

lemma slow_head_7:
  "clock (heads slow_env cfg a world0 7) - clock world0 < real_of_int default_max_wait"
  using slow_heads [of 7 cfg a] by (simp add: world0_def default_max_wait_def)

lemma slow_read_7:
  "read_campaign_state slow_env cfg a
     (update_campaign_state slow_env cfg a (heads slow_env cfg a world0 7))
   = (Some ''1'',
      snd (read_campaign_state slow_env cfg a
             (update_campaign_state slow_env cfg a (heads slow_env cfg a world0 7))))"
  using slow_observation_7 [of cfg a]
  by (simp add: observation_def Let_def) (metis prod.collapse)

lemma slow_wait:
  "wait_for_campaign_end slow_env cfg a default_max_wait world0
     = (Inr True,
        snd (read_campaign_state slow_env cfg a
               (update_campaign_state slow_env cfg a (heads slow_env cfg a world0 7))))"
proof -
  have "wait_loop slow_env cfg a (clock world0) default_max_wait world0
          = wait_loop slow_env cfg a (clock world0) default_max_wait
              (heads slow_env cfg a world0 7)"
    using slow_window by (rule wait_loop_heads)
  also have "\<dots> = (Inr True,
        snd (read_campaign_state slow_env cfg a
               (update_campaign_state slow_env cfg a (heads slow_env cfg a world0 7))))"
    using slow_head_7 slow_read_7
    by (rule wait_loop_succeeded) (simp_all add: py_int_small)
  finally show ?thesis
    by (simp add: wait_for_campaign_end_def)
qed

text \<open>
  Claim C6, as amended. Inside the window, an iteration whose state read observes state 1
  makes \<open>wait_for_campaign_end\<close> return \<open>True\<close>, and one that observes state 2 makes it
  return \<open>False\<close>, in both cases with the world as the state read left it: no sleep and
  no further subprocess follows. That holds for the loop in any world, and so for the
  \<open>n\<close>-th iteration of the operation when the reads before it observed state 0 or gave
  no result. \<open>True\<close> is only returned that way. The window is tested at the head of an
  iteration only: if the state read of every iteration that starts less than \<open>max_wait\<close>
  seconds after the start observes state 0 or gives no result, the operation returns
  \<open>False\<close> in the world at the first head at which \<open>max_wait\<close> seconds or more have
  passed, so without any further poll; the heads before it lie at least ten seconds
  apart. The default of \<open>max_wait\<close> is 150.
\<close>

theorem wait_for_campaign_end_poll:
  "(clock w - start < real_of_int max_wait
      \<and> read_campaign_state e cfg a (update_campaign_state e cfg a w) = (Some s, w3)
      \<and> s \<noteq> [] \<and> py_int s 16 = Some 1
    \<longrightarrow> wait_loop e cfg a start max_wait w = (Inr True, w3))
   \<and> (clock w - start < real_of_int max_wait
      \<and> read_campaign_state e cfg a (update_campaign_state e cfg a w) = (Some s, w3)
      \<and> s \<noteq> [] \<and> py_int s 16 = Some 2
    \<longrightarrow> wait_loop e cfg a start max_wait w = (Inr False, w3))
   \<and> ((\<forall>k<n. clock (heads e cfg a w k) - clock w < real_of_int max_wait
              \<and> quiet_read e cfg a (heads e cfg a w k))
      \<and> clock (heads e cfg a w n) - clock w < real_of_int max_wait
      \<and> read_campaign_state e cfg a (update_campaign_state e cfg a (heads e cfg a w n))
          = (Some s, w3)
      \<and> s \<noteq> [] \<and> py_int s 16 = Some 1
    \<longrightarrow> wait_for_campaign_end e cfg a max_wait w = (Inr True, w3))
   \<and> ((\<forall>k<n. clock (heads e cfg a w k) - clock w < real_of_int max_wait
              \<and> quiet_read e cfg a (heads e cfg a w k))
      \<and> clock (heads e cfg a w n) - clock w < real_of_int max_wait
      \<and> read_campaign_state e cfg a (update_campaign_state e cfg a (heads e cfg a w n))
          = (Some s, w3)
      \<and> s \<noteq> [] \<and> py_int s 16 = Some 2
    \<longrightarrow> wait_for_campaign_end e cfg a max_wait w = (Inr False, w3))
   \<and> (fst (wait_for_campaign_end e cfg a max_wait w) = Inr True
    \<longrightarrow> (\<exists>w2 s. read_campaign_state e cfg a w2
                   = (Some s, snd (wait_for_campaign_end e cfg a max_wait w))
                 \<and> s \<noteq> [] \<and> py_int s 16 = Some 1))
   \<and> ((\<forall>k. clock (heads e cfg a w k) - clock w < real_of_int max_wait
            \<longrightarrow> quiet_read e cfg a (heads e cfg a w k))
    \<longrightarrow> (\<exists>m. (\<forall>k<m. clock (heads e cfg a w k) - clock w < real_of_int max_wait
                     \<and> 10 * real k \<le> clock (heads e cfg a w k) - clock w)
             \<and> real_of_int max_wait \<le> clock (heads e cfg a w m) - clock w
             \<and> wait_for_campaign_end e cfg a max_wait w = (Inr False, heads e cfg a w m)))
   \<and> default_max_wait = 150"
proof (intro conjI impI)
  assume "clock w - start < real_of_int max_wait
      \<and> read_campaign_state e cfg a (update_campaign_state e cfg a w) = (Some s, w3)
      \<and> s \<noteq> [] \<and> py_int s 16 = Some 1"
  then show "wait_loop e cfg a start max_wait w = (Inr True, w3)"
    using wait_loop_succeeded by blast
next
  assume "clock w - start < real_of_int max_wait
      \<and> read_campaign_state e cfg a (update_campaign_state e cfg a w) = (Some s, w3)
      \<and> s \<noteq> [] \<and> py_int s 16 = Some 2"
  then show "wait_loop e cfg a start max_wait w = (Inr False, w3)"
    using wait_loop_failed by blast
next
  assume h: "(\<forall>k<n. clock (heads e cfg a w k) - clock w < real_of_int max_wait
              \<and> quiet_read e cfg a (heads e cfg a w k))
      \<and> clock (heads e cfg a w n) - clock w < real_of_int max_wait
      \<and> read_campaign_state e cfg a (update_campaign_state e cfg a (heads e cfg a w n))
          = (Some s, w3)
      \<and> s \<noteq> [] \<and> py_int s 16 = Some 1"
  then have "wait_for_campaign_end e cfg a max_wait w
               = wait_loop e cfg a (clock w) max_wait (heads e cfg a w n)"
    by (intro wait_at_iteration) simp
  moreover have "wait_loop e cfg a (clock w) max_wait (heads e cfg a w n) = (Inr True, w3)"
    using h by (intro wait_loop_succeeded [where s = s]) simp_all
  ultimately show "wait_for_campaign_end e cfg a max_wait w = (Inr True, w3)"
    by simp
next
  assume h: "(\<forall>k<n. clock (heads e cfg a w k) - clock w < real_of_int max_wait
              \<and> quiet_read e cfg a (heads e cfg a w k))
      \<and> clock (heads e cfg a w n) - clock w < real_of_int max_wait
      \<and> read_campaign_state e cfg a (update_campaign_state e cfg a (heads e cfg a w n))
          = (Some s, w3)
      \<and> s \<noteq> [] \<and> py_int s 16 = Some 2"
  then have "wait_for_campaign_end e cfg a max_wait w
               = wait_loop e cfg a (clock w) max_wait (heads e cfg a w n)"
    by (intro wait_at_iteration) simp
  moreover have "wait_loop e cfg a (clock w) max_wait (heads e cfg a w n) = (Inr False, w3)"
    using h by (intro wait_loop_failed [where s = s]) simp_all
  ultimately show "wait_for_campaign_end e cfg a max_wait w = (Inr False, w3)"
    by simp
next
  assume "fst (wait_for_campaign_end e cfg a max_wait w) = Inr True"
  then show "\<exists>w2 s. read_campaign_state e cfg a w2
                   = (Some s, snd (wait_for_campaign_end e cfg a max_wait w))
                 \<and> s \<noteq> [] \<and> py_int s 16 = Some 1"
    unfolding wait_for_campaign_end_def by (rule wait_loop_returns_true)
next
  assume "\<forall>k. clock (heads e cfg a w k) - clock w < real_of_int max_wait
            \<longrightarrow> quiet_read e cfg a (heads e cfg a w k)"
  then show "\<exists>m. (\<forall>k<m. clock (heads e cfg a w k) - clock w < real_of_int max_wait
                     \<and> 10 * real k \<le> clock (heads e cfg a w k) - clock w)
             \<and> real_of_int max_wait \<le> clock (heads e cfg a w m) - clock w
             \<and> wait_for_campaign_end e cfg a max_wait w = (Inr False, heads e cfg a w m)"
    unfolding wait_for_campaign_end_def by (rule wait_loop_times_out)
next
  show "default_max_wait = 150"
    by (rule default_max_wait_def)
qed


text \<open>
  A campaign that has succeeded at the first read (two subprocesses of one second and
  the five-second sleep after the refresh: seven seconds), one that has failed, one that
  succeeds in the eighth iteration, and one that stays active: its iterations take 17
  seconds, the ninth starts at 136 seconds, and the operation returns at 153 seconds
  after 18 subprocesses.
\<close>

theorem wait_for_campaign_end_poll_witness:
  "wait_for_campaign_end (env_printing ''1'') demo_config ''0xCAMP'' default_max_wait world0
     = (Inr True,
        snd (read_campaign_state (env_printing ''1'') demo_config ''0xCAMP''
               (update_campaign_state (env_printing ''1'') demo_config ''0xCAMP'' world0)))
   \<and> clock (snd (read_campaign_state (env_printing ''1'') demo_config ''0xCAMP''
               (update_campaign_state (env_printing ''1'') demo_config ''0xCAMP'' world0))) = 7
   \<and> calls (snd (read_campaign_state (env_printing ''1'') demo_config ''0xCAMP''
               (update_campaign_state (env_printing ''1'') demo_config ''0xCAMP'' world0))) = 2
   \<and> wait_for_campaign_end (env_printing ''2'') demo_config ''0xCAMP'' default_max_wait world0
     = (Inr False,
        snd (read_campaign_state (env_printing ''2'') demo_config ''0xCAMP''
               (update_campaign_state (env_printing ''2'') demo_config ''0xCAMP'' world0)))
   \<and> wait_for_campaign_end slow_env demo_config ''0xCAMP'' default_max_wait world0
     = (Inr True,
        snd (read_campaign_state slow_env demo_config ''0xCAMP''
               (update_campaign_state slow_env demo_config ''0xCAMP''
                  (heads slow_env demo_config ''0xCAMP'' world0 7))))
   \<and> wait_for_campaign_end (env_printing ''0'') demo_config ''0xCAMP'' default_max_wait world0
     = (Inr False, heads (env_printing ''0'') demo_config ''0xCAMP'' world0 9)
   \<and> clock (heads (env_printing ''0'') demo_config ''0xCAMP'' world0 8) = 136
   \<and> clock (heads (env_printing ''0'') demo_config ''0xCAMP'' world0 9) = 153
   \<and> calls (heads (env_printing ''0'') demo_config ''0xCAMP'' world0 9) = 18"
proof -
  let ?u1 = "update_campaign_state (env_printing ''1'') demo_config ''0xCAMP'' world0"
  let ?u2 = "update_campaign_state (env_printing ''2'') demo_config ''0xCAMP'' world0"
  let ?h0 = "heads (env_printing ''0'') demo_config ''0xCAMP'' world0"
  have ck: "clock (snd (read_campaign_state (env_printing ''1'') demo_config ''0xCAMP'' ?u1)) = 7
            \<and> calls (snd (read_campaign_state (env_printing ''1'') demo_config ''0xCAMP'' ?u1)) = 2"
    by (simp add: read_campaign_state_def update_campaign_state_def run_cast_command_def
        subprocess_run_def log_line_def sleep_def env_printing_def env_of_def world0_def
        py_strip_def py_isspace_def Let_def)
  have r1: "read_campaign_state (env_printing ''1'') demo_config ''0xCAMP'' ?u1
              = (Some ''1'', snd (read_campaign_state (env_printing ''1'') demo_config ''0xCAMP'' ?u1))"
    by (rule read_campaign_state_env_printing) (simp_all add: py_isspace_def)
  have r2: "read_campaign_state (env_printing ''2'') demo_config ''0xCAMP'' ?u2
              = (Some ''2'', snd (read_campaign_state (env_printing ''2'') demo_config ''0xCAMP'' ?u2))"
    by (rule read_campaign_state_env_printing) (simp_all add: py_isspace_def)
  have inside: "clock world0 - clock world0 < real_of_int default_max_wait"
    by (simp add: default_max_wait_def)
  have t1: "wait_for_campaign_end (env_printing ''1'') demo_config ''0xCAMP'' default_max_wait world0
     = (Inr True, snd (read_campaign_state (env_printing ''1'') demo_config ''0xCAMP'' ?u1))"
    using wait_for_campaign_end_poll
            [where e = "env_printing ''1''" and cfg = demo_config and a = "''0xCAMP''"
               and w = world0 and start = "clock world0" and max_wait = default_max_wait
               and s = "''1''"
               and ?w3.0 = "snd (read_campaign_state (env_printing ''1'') demo_config ''0xCAMP'' ?u1)"]
          r1 inside
    by (simp add: wait_for_campaign_end_def py_int_small)
  have t2: "wait_for_campaign_end (env_printing ''2'') demo_config ''0xCAMP'' default_max_wait world0
     = (Inr False, snd (read_campaign_state (env_printing ''2'') demo_config ''0xCAMP'' ?u2))"
    using wait_for_campaign_end_poll
            [where e = "env_printing ''2''" and cfg = demo_config and a = "''0xCAMP''"
               and w = world0 and n = 0 and max_wait = default_max_wait
               and s = "''2''"
               and ?w3.0 = "snd (read_campaign_state (env_printing ''2'') demo_config ''0xCAMP'' ?u2)"]
          r2 inside
    by (simp add: py_int_small)
  have t3: "wait_for_campaign_end slow_env demo_config ''0xCAMP'' default_max_wait world0
     = (Inr True,
        snd (read_campaign_state slow_env demo_config ''0xCAMP''
               (update_campaign_state slow_env demo_config ''0xCAMP''
                  (heads slow_env demo_config ''0xCAMP'' world0 7))))"
    using wait_for_campaign_end_poll
            [where e = slow_env and cfg = demo_config and a = "''0xCAMP''"
               and w = world0 and n = 7 and max_wait = default_max_wait and s = "''1''"
               and ?w3.0 = "snd (read_campaign_state slow_env demo_config ''0xCAMP''
                                   (update_campaign_state slow_env demo_config ''0xCAMP''
                                      (heads slow_env demo_config ''0xCAMP'' world0 7)))"]
          slow_window [of demo_config "''0xCAMP''"] slow_head_7 [of demo_config "''0xCAMP''"]
          slow_read_7 [of demo_config "''0xCAMP''"]
    by (simp add: py_int_small)
  have hc: "\<And>k. clock (?h0 k) = 17 * real k" and hn: "\<And>k. calls (?h0 k) = 2 * k"
    using printing_0_heads [of demo_config "''0xCAMP''" world0] by (simp_all add: world0_def)
  have "\<forall>k. clock (?h0 k) - clock world0 < real_of_int default_max_wait
            \<longrightarrow> quiet_read (env_printing ''0'') demo_config ''0xCAMP'' (?h0 k)"
    by (simp add: printing_0_quiet)
  then obtain m where m:
      "\<forall>k<m. clock (?h0 k) - clock world0 < real_of_int default_max_wait
              \<and> 10 * real k \<le> clock (?h0 k) - clock world0"
      "real_of_int default_max_wait \<le> clock (?h0 m) - clock world0"
      "wait_for_campaign_end (env_printing ''0'') demo_config ''0xCAMP'' default_max_wait world0
         = (Inr False, ?h0 m)"
    using wait_for_campaign_end_poll
            [where e = "env_printing ''0''" and cfg = demo_config and a = "''0xCAMP''"
               and w = world0 and max_wait = default_max_wait]
    by blast
  have cw: "clock world0 = 0"
    by (simp add: world0_def)
  have "150 \<le> 17 * real m"
    using m(2) by (simp add: hc cw default_max_wait_def)
  then have lower: "9 \<le> m"
    by linarith
  have "\<not> 9 < m"
  proof
    assume "9 < m"
    then have "clock (?h0 9) - clock world0 < real_of_int default_max_wait"
      using m(1) by blast
    then show False
      by (simp add: hc cw default_max_wait_def)
  qed
  then have "m = 9"
    using lower by simp
  then have t0: "wait_for_campaign_end (env_printing ''0'') demo_config ''0xCAMP''
                   default_max_wait world0 = (Inr False, ?h0 9)"
    using m(3) by simp
  show ?thesis
    using t1 ck t2 t3 t0 hc [of 8] hc [of 9] hn [of 9] by simp
qed


text \<open>
  In the slow environment every state read that ends within the 150 seconds observes
  state 0. The eighth iteration starts at 147 seconds, inside the window; its read ends
  at 158 seconds and observes state 1, and the operation returns \<open>True\<close>.
\<close>

theorem wait_for_campaign_end_late_read_counterexample:
  "map (observation slow_env demo_config ''0xCAMP'' world0) [0, 1, 2, 3, 4, 5, 6, 7]
     = [(Some ''0'', 11), (Some ''0'', 32), (Some ''0'', 53), (Some ''0'', 74),
        (Some ''0'', 95), (Some ''0'', 116), (Some ''0'', 137), (Some ''1'', 158)]
   \<and> default_max_wait = 150
   \<and> fst (wait_for_campaign_end slow_env demo_config ''0xCAMP'' default_max_wait world0)
       = Inr True
   \<and> clock (snd (wait_for_campaign_end slow_env demo_config ''0xCAMP'' default_max_wait world0))
       = 158"
proof -
  have m: "map (observation slow_env demo_config ''0xCAMP'' world0) [0, 1, 2, 3, 4, 5, 6, 7]
     = [(Some ''0'', 11), (Some ''0'', 32), (Some ''0'', 53), (Some ''0'', 74),
        (Some ''0'', 95), (Some ''0'', 116), (Some ''0'', 137), (Some ''1'', 158)]"
    using slow_observation [of 0 demo_config "''0xCAMP''"]
          slow_observation [of 1 demo_config "''0xCAMP''"]
          slow_observation [of 2 demo_config "''0xCAMP''"]
          slow_observation [of 3 demo_config "''0xCAMP''"]
          slow_observation [of 4 demo_config "''0xCAMP''"]
          slow_observation [of 5 demo_config "''0xCAMP''"]
          slow_observation [of 6 demo_config "''0xCAMP''"]
          slow_observation_7 [of demo_config "''0xCAMP''"]
    by simp
  have f: "fst (wait_for_campaign_end slow_env demo_config ''0xCAMP'' default_max_wait world0)
             = Inr True"
    by (simp add: slow_wait)
  have "clock (snd (read_campaign_state slow_env demo_config ''0xCAMP''
               (update_campaign_state slow_env demo_config ''0xCAMP''
                  (heads slow_env demo_config ''0xCAMP'' world0 7)))) - clock world0 = 158"
    using slow_observation_7 [of demo_config "''0xCAMP''"]
    by (simp add: observation_def Let_def)
  moreover have "clock world0 = 0"
    by (simp add: world0_def)
  ultimately have "clock (snd (read_campaign_state slow_env demo_config ''0xCAMP''
               (update_campaign_state slow_env demo_config ''0xCAMP''
                  (heads slow_env demo_config ''0xCAMP'' world0 7)))) = 158"
    by simp
  then have c: "clock (snd (wait_for_campaign_end slow_env demo_config ''0xCAMP''
                              default_max_wait world0)) = 158"
    by (simp add: slow_wait)
  show ?thesis
    using m f c by (simp add: default_max_wait_def)
qed

section \<open>Runs on the concrete chain\<close>

lemma run_cast_command_reply:
  assumes "proc e (calls w) (full_command c cmd) = Completed 0 out err"
  shows "\<exists>w'. run_cast_command e c cmd w = (Some (py_strip out), w')"
proof -
  have "fst (run_cast_command e c cmd w) = Some (py_strip out)"
    using assms by (simp add: result_run_cast_command)
  then show ?thesis
    by (metis prod.collapse)
qed

lemma py_strip_plain:
  "py_strip ''0xhash'' = ''0xhash''" "py_strip ''7'' = ''7''" "py_strip ''1'' = ''1''"
  "py_strip ''2'' = ''2''" "py_strip ''0xD0'' = ''0xD0''" "py_strip ''0x64'' = ''0x64''"
  "py_strip campaign_word = campaign_word" "py_strip campaign_tuple = campaign_tuple"
  "py_strip zero_address = zero_address"
  by (simp_all add: py_strip_def py_isspace_def campaign_word_def campaign_tuple_def
      zero_address_def)

lemma py_int_7: "py_int ''7'' 10 = Some 7"
  by (simp add: py_int_def py_strip_def py_isspace_def parse_unsigned_def digit_val_def
      upper_letters_def)

lemma format_campaign_word: "format_campaign_address (Some campaign_word) = Some campaign_c4"
  by (simp add: format_campaign_address_def py_startswith_def py_last_n_def campaign_word_def
      campaign_c4_def Let_def)

lemmas chain_simps = env_of_def chain_def full_command_eq py_strip_plain

lemma create_campaign_chain:
  "\<exists>w'. create_campaign (env_of (chain state ok)) cfg name liq w
          = (Inr (Some (6, campaign_c4)), w')"
proof -
  let ?e = "env_of (chain state ok)"
  obtain w1 where r1: "run_cast_command ?e (creator_cast cfg)
             [''send'', factory (addresses cfg),
              ''createCampaign(string,string,uint256,uint256,uint256,uint256,string,string)'',
              name,
              ''ipfs://test-metadata'',
              py_str (funding_goal cfg),
              py_str (campaign_duration cfg),
              ''25'',
              py_str liq,
              name @ '' Token'',
              py_upper (take 4 name)] w = (Some ''0xhash'', w1)"
    using run_cast_command_reply [where e = ?e and w = w and out = "''0xhash''" and err = "[]"]
    by (fastforce simp: chain_simps)
  obtain w2 where r2: "run_cast_command ?e (creator_cast cfg)
             [''call'', factory (addresses cfg), ''getCampaignCount()(uint256)'']
             (sleep 10 w1) = (Some ''7'', w2)"
    using run_cast_command_reply [where e = ?e and w = "sleep 10 w1" and out = "''7''" and err = "[]"]
    by (fastforce simp: chain_simps)
  obtain w3 where r3: "run_cast_command ?e (creator_cast cfg)
             [''call'', factory (addresses cfg), ''getCampaignAddress(uint256)'', py_str 6]
             w2 = (Some campaign_word, w3)"
    using run_cast_command_reply [where e = ?e and w = w2 and out = campaign_word and err = "[]"]
    by (fastforce simp: chain_simps)
  have "create_campaign ?e cfg name liq w = (Inr (Some (6, campaign_c4)), w3)"
    by (simp add: create_campaign_def get_campaign_address_def r1 r2 r3 py_int_7
        format_campaign_word campaign_c4_def)
  then show ?thesis by blast
qed


lemma contribute_chain:
  "\<exists>w'. contribute_to_campaign (env_of (chain state ok)) cfg a amount w = (Inr True, w')"
proof -
  let ?e = "env_of (chain state ok)"
  obtain w1 where r1: "run_cast_command ?e (donor_cast cfg)
             [''send'', usdc (addresses cfg), ''approve(address,uint256)'', a, py_str amount] w
           = (Some ''0xhash'', w1)"
    using run_cast_command_reply [where e = ?e and w = w and out = "''0xhash''" and err = "[]"]
    by (fastforce simp: chain_simps)
  obtain w2 where r2: "run_cast_command ?e (donor_cast cfg)
             [''send'', a, ''contribute(uint256)'', py_str amount] (sleep 5 w1)
           = (Some ''0xhash'', w2)"
    using run_cast_command_reply [where e = ?e and w = "sleep 5 w1" and out = "''0xhash''" and err = "[]"]
    by (fastforce simp: chain_simps)
  have "contribute_to_campaign ?e cfg a amount w = (Inr True, w2)"
    by (simp add: contribute_to_campaign_def approve_token_def r1 r2) (simp add: env_of_def)
  then show ?thesis by blast
qed

lemma read_campaign_state_chain:
  assumes "py_strip state = state"
  shows "\<exists>w'. read_campaign_state (env_of (chain state ok)) cfg a w = (Some state, w')"
  using run_cast_command_reply
          [where e = "env_of (chain state ok)" and w = w and out = state and err = "[]"
             and c = "creator_cast cfg" and cmd = "[''call'', a, ''getCampaignState()(uint8)'']"]
        assms
  by (simp add: read_campaign_state_def env_of_def chain_def full_command_eq)

lemma wait_chain_succeeded:
  "\<exists>w'. wait_for_campaign_end (env_of (chain ''1'' ok)) cfg a default_max_wait w = (Inr True, w')"
proof -
  let ?e = "env_of (chain ''1'' ok)"
  obtain w3 where r: "read_campaign_state ?e cfg a (update_campaign_state ?e cfg a w) = (Some ''1'', w3)"
    using read_campaign_state_chain [of "''1''"] by (fastforce simp: py_strip_plain)
  have "wait_loop ?e cfg a (clock w) default_max_wait w = (Inr True, w3)"
    by (rule wait_loop_succeeded [OF _ r]) (simp_all add: default_max_wait_def py_int_small)
  then show ?thesis by (simp add: wait_for_campaign_end_def)
qed

lemma wait_chain_failed:
  "\<exists>w'. wait_for_campaign_end (env_of (chain ''2'' ok)) cfg a default_max_wait w = (Inr False, w')"
proof -
  let ?e = "env_of (chain ''2'' ok)"
  obtain w3 where r: "read_campaign_state ?e cfg a (update_campaign_state ?e cfg a w) = (Some ''2'', w3)"
    using read_campaign_state_chain [of "''2''"] by (fastforce simp: py_strip_plain)
  have "wait_loop ?e cfg a (clock w) default_max_wait w = (Inr False, w3)"
    by (rule wait_loop_failed [OF _ r]) (simp_all add: default_max_wait_def py_int_small)
  then show ?thesis by (simp add: wait_for_campaign_end_def)
qed

lemma pool_chain:
  "\<exists>w'. create_liquidity_pool (env_of (chain state ok)) cfg a w = (True, w')"
  using run_cast_command_reply
          [where e = "env_of (chain state ok)" and w = w and out = "''0xhash''" and err = "[]"
             and c = "creator_cast cfg" and cmd = "[''send'', a, ''createLiquidityPool()'']"]
  by (fastforce simp: create_liquidity_pool_def chain_simps)

lemma claim_chain:
  "\<exists>w'. claim_tokens (env_of (chain state ok)) cfg a w = (True, w')"
  using run_cast_command_reply
          [where e = "env_of (chain state ok)" and w = w and out = "''0xhash''" and err = "[]"
             and c = "donor_cast cfg" and cmd = "[''send'', a, ''claimTokens()'']"]
  by (fastforce simp: claim_tokens_def chain_simps)

lemma parse_campaign_tuple: "parse_token_address campaign_tuple = Some token_70"
  by (simp add: parse_token_address_def campaign_tuple_def token_70_def py_strip_chars_def
      py_strip_def py_isspace_def py_startswith_def py_zfill_def Let_def eval_nat_numeral)

lemma token_chain:
  "\<exists>w'. get_campaign_token_address (env_of (chain state ok)) cfg cid w = (Some token_70, w')"
proof -
  obtain w1 where "run_cast_command (env_of (chain state ok)) (creator_cast cfg)
      [''call'', factory (addresses cfg), ''getCampaign(uint256)'', py_str cid] w
        = (Some campaign_tuple, w1)"
    using run_cast_command_reply
          [where e = "env_of (chain state ok)" and w = w and out = campaign_tuple and err = "[]"]
    by (fastforce simp: chain_simps)
  then have "get_campaign_token_address (env_of (chain state ok)) cfg cid w = (Some token_70, w1)"
    by (simp add: get_campaign_token_address_def parse_campaign_tuple) (simp add: campaign_tuple_def)
  then show ?thesis by blast
qed

lemma account_chain:
  "\<exists>w'. get_account_address (env_of (chain state ok)) c w
          = (if ok then Some ''0xD0'' else None, w')"
  by (simp add: get_account_address_def subprocess_run_def log_line_def env_of_def chain_def
      py_strip_plain Let_def)

lemma py_int_0x64: "py_int ''0x64'' 16 = Some 100"
  by (simp add: py_int_def py_strip_def py_isspace_def parse_unsigned_def digit_val_def
      upper_letters_def)

lemma balance_chain:
  "fst (get_balance (env_of (chain state ok)) c tok acct w) = Inr 100"
proof -
  obtain w1 where "run_cast_command (env_of (chain state ok)) c
      [''call'', tok, ''balanceOf(address)(uint256)'', acct] w = (Some ''0x64'', w1)"
    using run_cast_command_reply
          [where e = "env_of (chain state ok)" and w = w and out = "''0x64''" and err = "[]"]
    by (fastforce simp: chain_simps)
  then show ?thesis
    by (simp add: get_balance_def py_int_0x64)
qed

lemma swap_test_chain:
  "fst (test_token_swap (env_of (chain state ok)) c tok u amount w) = False"
proof -
  obtain w1 where "run_cast_command (env_of (chain state ok)) c
      [''call'', FACTORY_ADDRESS, ''getPair(address,address)(address)'', tok, u] w
        = (Some zero_address, w1)"
    using run_cast_command_reply
          [where e = "env_of (chain state ok)" and w = w and out = zero_address and err = "[]"]
    by (fastforce simp: chain_simps)
  then show ?thesis
    by (simp add: test_token_swap_def get_pair_address_def format_pair_address_def)
qed


lemma with_snd: "\<exists>w'. x = (r, w') \<Longrightarrow> x = (r, snd x)"
  by auto

section \<open>Scenario 3\<close>

lemma trace_refund_contribution:
  "\<exists>l1 l2. trace (snd (refund_contribution e cfg a w)) =
      trace w @ [l1, Exec (full_command (donor_cast cfg) [''send'', a, ''refund()'']) 60, l2]"
proof -
  have "snd (refund_contribution e cfg a w)
          = snd (run_cast_command e (donor_cast cfg) [''send'', a, ''refund()''] w)"
    by (simp add: refund_contribution_def split: prod.split)
  then show ?thesis
    using trace_run_cast_command [of e "donor_cast cfg" "[''send'', a, ''refund()'']" w]
    by simp
qed

text \<open>
  Claim C7. In scenario 3, when the campaign was created, half the goal was contributed
  and \<open>wait_for_campaign_end\<close> returns \<open>False\<close>, the scenario returns \<open>False\<close> and
  the world is the one the wait left: the refund transaction, which would add a
  subprocess to the trace, is not sent. That includes the wait that observes the state
  Failed. The scenario returns \<open>True\<close> only when creation, contribution, wait and refund
  each succeed.
\<close>

theorem scenario_3_fails_when_wait_is_false:
  "(create_campaign e cfg ''Test Campaign 3'' 0 w = (Inr (Some (cid, a)), w1)
      \<and> contribute_to_campaign e cfg a (funding_goal cfg div 2) w1 = (Inr True, w2)
      \<and> wait_for_campaign_end e cfg a default_max_wait w2 = (Inr False, w3)
    \<longrightarrow> test_scenario_3_failure_and_refund e cfg w = (False, w3))
   \<and> (create_campaign e cfg ''Test Campaign 3'' 0 w = (Inr (Some (cid, a)), w1)
      \<and> contribute_to_campaign e cfg a (funding_goal cfg div 2) w1 = (Inr True, w2)
      \<and> read_campaign_state e cfg a (update_campaign_state e cfg a w2) = (Some s, w3)
      \<and> s \<noteq> [] \<and> py_int s 16 = Some 2
    \<longrightarrow> test_scenario_3_failure_and_refund e cfg w = (False, w3))
   \<and> (fst (test_scenario_3_failure_and_refund e cfg w) = True
    \<longrightarrow> (\<exists>cid' a' w1' w2' w3'.
           create_campaign e cfg ''Test Campaign 3'' 0 w = (Inr (Some (cid', a')), w1')
           \<and> contribute_to_campaign e cfg a' (funding_goal cfg div 2) w1' = (Inr True, w2')
           \<and> wait_for_campaign_end e cfg a' default_max_wait w2' = (Inr True, w3')
           \<and> refund_contribution e cfg a' w3'
               = (True, snd (test_scenario_3_failure_and_refund e cfg w))))
   \<and> (\<exists>l1 l2. trace (snd (refund_contribution e cfg a w3)) =
          trace w3 @ [l1, Exec (full_command (donor_cast cfg) [''send'', a, ''refund()'']) 60, l2])"
proof (intro conjI impI)
  assume "create_campaign e cfg ''Test Campaign 3'' 0 w = (Inr (Some (cid, a)), w1)
      \<and> contribute_to_campaign e cfg a (funding_goal cfg div 2) w1 = (Inr True, w2)
      \<and> wait_for_campaign_end e cfg a default_max_wait w2 = (Inr False, w3)"
  then show "test_scenario_3_failure_and_refund e cfg w = (False, w3)"
    by (simp add: test_scenario_3_failure_and_refund_def)
next
  assume h: "create_campaign e cfg ''Test Campaign 3'' 0 w = (Inr (Some (cid, a)), w1)
      \<and> contribute_to_campaign e cfg a (funding_goal cfg div 2) w1 = (Inr True, w2)
      \<and> read_campaign_state e cfg a (update_campaign_state e cfg a w2) = (Some s, w3)
      \<and> s \<noteq> [] \<and> py_int s 16 = Some 2"
  have "wait_loop e cfg a (clock w2) default_max_wait w2 = (Inr False, w3)"
    using h by (intro wait_loop_failed [where s = s]) (simp_all add: default_max_wait_def)
  then have "wait_for_campaign_end e cfg a default_max_wait w2 = (Inr False, w3)"
    by (simp add: wait_for_campaign_end_def)
  then show "test_scenario_3_failure_and_refund e cfg w = (False, w3)"
    using h by (simp add: test_scenario_3_failure_and_refund_def)
next
  assume t: "fst (test_scenario_3_failure_and_refund e cfg w) = True"
  obtain r1 w1' where c1: "create_campaign e cfg ''Test Campaign 3'' 0 w = (r1, w1')"
    by (cases "create_campaign e cfg ''Test Campaign 3'' 0 w")
  from t c1 obtain cid' a' where r1: "r1 = Inr (Some (cid', a'))"
    by (auto simp: test_scenario_3_failure_and_refund_def split: sum.splits option.splits)
  obtain r2 w2' where c2: "contribute_to_campaign e cfg a' (funding_goal cfg div 2) w1' = (r2, w2')"
    by (cases "contribute_to_campaign e cfg a' (funding_goal cfg div 2) w1'")
  from t c1 r1 c2 have r2: "r2 = Inr True"
    by (auto simp: test_scenario_3_failure_and_refund_def Let_def split: sum.splits bool.splits)
  obtain r3 w3' where c3: "wait_for_campaign_end e cfg a' default_max_wait w2' = (r3, w3')"
    by (cases "wait_for_campaign_end e cfg a' default_max_wait w2'")
  from t c1 r1 c2 r2 c3 have r3: "r3 = Inr True"
    by (auto simp: test_scenario_3_failure_and_refund_def Let_def split: sum.splits bool.splits)
  obtain r4 w4' where c4: "refund_contribution e cfg a' w3' = (r4, w4')"
    by (cases "refund_contribution e cfg a' w3'")
  from t c1 r1 c2 r2 c3 r3 c4 have r4: "r4 = True"
    and fin: "snd (test_scenario_3_failure_and_refund e cfg w) = w4'"
    by (auto simp: test_scenario_3_failure_and_refund_def Let_def split: bool.splits)
  show "\<exists>cid' a' w1' w2' w3'.
           create_campaign e cfg ''Test Campaign 3'' 0 w = (Inr (Some (cid', a')), w1')
           \<and> contribute_to_campaign e cfg a' (funding_goal cfg div 2) w1' = (Inr True, w2')
           \<and> wait_for_campaign_end e cfg a' default_max_wait w2' = (Inr True, w3')
           \<and> refund_contribution e cfg a' w3'
               = (True, snd (test_scenario_3_failure_and_refund e cfg w))"
    using c1 r1 c2 r2 c3 r3 c4 r4 fin by blast
next
  show "\<exists>l1 l2. trace (snd (refund_contribution e cfg a w3)) =
          trace w3 @ [l1, Exec (full_command (donor_cast cfg) [''send'', a, ''refund()'']) 60, l2]"
    by (rule trace_refund_contribution)
qed

text \<open>A run in which the campaign reaches the state Failed, as the scenario intends.\<close>

theorem scenario_3_fails_when_wait_is_false_witness:
  "create_campaign (env_of (chain ''2'' True)) demo_config ''Test Campaign 3'' 0 world0
     = (Inr (Some (6, campaign_c4)), s3_w1 (env_of (chain ''2'' True)))
   \<and> contribute_to_campaign (env_of (chain ''2'' True)) demo_config campaign_c4
        (funding_goal demo_config div 2) (s3_w1 (env_of (chain ''2'' True)))
     = (Inr True, s3_w2 (env_of (chain ''2'' True)))
   \<and> wait_for_campaign_end (env_of (chain ''2'' True)) demo_config campaign_c4 default_max_wait
        (s3_w2 (env_of (chain ''2'' True)))
     = (Inr False, s3_w3 (env_of (chain ''2'' True)))
   \<and> test_scenario_3_failure_and_refund (env_of (chain ''2'' True)) demo_config world0
     = (False, s3_w3 (env_of (chain ''2'' True)))"
proof -
  let ?e = "env_of (chain ''2'' True)"
  have c1: "create_campaign ?e demo_config ''Test Campaign 3'' 0 world0
              = (Inr (Some (6, campaign_c4)), s3_w1 ?e)"
    unfolding s3_w1_def by (rule with_snd) (rule create_campaign_chain)
  have c2: "contribute_to_campaign ?e demo_config campaign_c4
              (funding_goal demo_config div 2) (s3_w1 ?e) = (Inr True, s3_w2 ?e)"
    unfolding s3_w2_def by (rule with_snd) (rule contribute_chain)
  have c3: "wait_for_campaign_end ?e demo_config campaign_c4 default_max_wait (s3_w2 ?e)
              = (Inr False, s3_w3 ?e)"
    unfolding s3_w3_def by (rule with_snd) (rule wait_chain_failed)
  have "test_scenario_3_failure_and_refund ?e demo_config world0 = (False, s3_w3 ?e)"
    using scenario_3_fails_when_wait_is_false
            [where e = ?e and cfg = demo_config and w = world0 and cid = 6 and a = campaign_c4
               and ?w1.0 = "s3_w1 ?e" and ?w2.0 = "s3_w2 ?e" and ?w3.0 = "s3_w3 ?e"]
          c1 c2 c3
    by blast
  then show ?thesis
    using c1 c2 c3 by simp
qed


section \<open>Scenario 2\<close>

lemma swap_probe_no_address:
  assumes "get_account_address e (donor_cast cfg) (sleep 10 w) = (donor, w')"
    and "\<not> truthy donor"
  shows "swap_probe e cfg tok w = (False, w')"
  using assms by (simp add: swap_probe_def)

lemma swap_probe_balance:
  assumes "get_account_address e (donor_cast cfg) (sleep 10 w) = (donor, w')"
    and "truthy donor"
    and "fst (get_balance e (donor_cast cfg) tok (value_of donor) w') = Inr balance"
  shows "fst (swap_probe e cfg tok w) = True"
proof -
  obtain w2 where b: "get_balance e (donor_cast cfg) tok (value_of donor) w' = (Inr balance, w2)"
    using assms(3) by (metis prod.collapse)
  show ?thesis
    using assms(1,2) b by (simp add: swap_probe_def Let_def split: prod.split)
qed

lemma scenario_2_lifecycle:
  assumes "create_campaign e cfg ''Test Campaign 2'' 50 w = (Inr (Some (cid, a)), w1)"
    and "contribute_to_campaign e cfg a (funding_goal cfg) w1 = (Inr True, w2)"
    and "wait_for_campaign_end e cfg a default_max_wait w2 = (Inr True, w3)"
    and "create_liquidity_pool e cfg a w3 = (True, w4)"
    and "get_campaign_token_address e cfg cid w4 = (Some tok, w5)" and "tok \<noteq> []"
    and "claim_tokens e cfg a w5 = (True, w6)"
  shows "test_scenario_2_success_with_liquidity e cfg w = swap_probe e cfg tok w6"
  using assms by (simp add: test_scenario_2_success_with_liquidity_def)

text \<open>
  Claim C1, as amended. When creation, contribution, wait, pool creation, token-address
  resolution and the claim of the tokens succeed in scenario 2, the scenario returns
  \<open>False\<close> if the fetch of the donor's address gives no address; if it gives one and
  the balance read returns a number, the scenario returns \<open>True\<close>, whatever the balance
  is and whatever the swap test does.
\<close>

theorem scenario_2_result_after_lifecycle:
  "create_campaign e cfg ''Test Campaign 2'' 50 w = (Inr (Some (cid, a)), w1)
   \<and> contribute_to_campaign e cfg a (funding_goal cfg) w1 = (Inr True, w2)
   \<and> wait_for_campaign_end e cfg a default_max_wait w2 = (Inr True, w3)
   \<and> create_liquidity_pool e cfg a w3 = (True, w4)
   \<and> get_campaign_token_address e cfg cid w4 = (Some tok, w5) \<and> tok \<noteq> []
   \<and> claim_tokens e cfg a w5 = (True, w6)
   \<and> get_account_address e (donor_cast cfg) (sleep 10 w6) = (donor, w7)
   \<longrightarrow> (\<not> truthy donor \<longrightarrow> test_scenario_2_success_with_liquidity e cfg w = (False, w7))
     \<and> (truthy donor
          \<and> fst (get_balance e (donor_cast cfg) tok (value_of donor) w7) = Inr balance
        \<longrightarrow> fst (test_scenario_2_success_with_liquidity e cfg w) = True)"
proof (intro impI conjI)
  assume h: "create_campaign e cfg ''Test Campaign 2'' 50 w = (Inr (Some (cid, a)), w1)
   \<and> contribute_to_campaign e cfg a (funding_goal cfg) w1 = (Inr True, w2)
   \<and> wait_for_campaign_end e cfg a default_max_wait w2 = (Inr True, w3)
   \<and> create_liquidity_pool e cfg a w3 = (True, w4)
   \<and> get_campaign_token_address e cfg cid w4 = (Some tok, w5) \<and> tok \<noteq> []
   \<and> claim_tokens e cfg a w5 = (True, w6)
   \<and> get_account_address e (donor_cast cfg) (sleep 10 w6) = (donor, w7)"
  then have eq: "test_scenario_2_success_with_liquidity e cfg w = swap_probe e cfg tok w6"
    by (simp add: test_scenario_2_success_with_liquidity_def)
  {
    assume "\<not> truthy donor"
    then show "test_scenario_2_success_with_liquidity e cfg w = (False, w7)"
      using h swap_probe_no_address [of e cfg w6 donor w7 tok] by (simp add: eq)
  next
    assume "truthy donor
          \<and> fst (get_balance e (donor_cast cfg) tok (value_of donor) w7) = Inr balance"
    then show "fst (test_scenario_2_success_with_liquidity e cfg w) = True"
      using h swap_probe_balance [of e cfg w6 donor w7 tok balance] by (simp add: eq)
  }
qed

text \<open>
  A run in which the donor holds 100 tokens and the swap test of 10 tokens fails (no
  pair exists): the scenario passes.
\<close>

theorem scenario_2_result_after_lifecycle_witness:
  "create_campaign (env_of (chain ''1'' True)) demo_config ''Test Campaign 2'' 50 world0
     = (Inr (Some (6, campaign_c4)), s2_w1 (env_of (chain ''1'' True)))
   \<and> claim_tokens (env_of (chain ''1'' True)) demo_config campaign_c4
        (s2_w5 (env_of (chain ''1'' True)))
     = (True, s2_w6 (env_of (chain ''1'' True)))
   \<and> get_account_address (env_of (chain ''1'' True)) (donor_cast demo_config)
        (sleep 10 (s2_w6 (env_of (chain ''1'' True))))
     = (Some ''0xD0'', s2_w7 (env_of (chain ''1'' True)))
   \<and> fst (get_balance (env_of (chain ''1'' True)) (donor_cast demo_config) token_70 ''0xD0''
             (s2_w7 (env_of (chain ''1'' True)))) = Inr 100
   \<and> fst (test_token_swap (env_of (chain ''1'' True)) (donor_cast demo_config) token_70
             (usdc (addresses demo_config)) 10
             (snd (get_balance (env_of (chain ''1'' True)) (donor_cast demo_config) token_70
                     ''0xD0'' (s2_w7 (env_of (chain ''1'' True)))))) = False
   \<and> fst (test_scenario_2_success_with_liquidity (env_of (chain ''1'' True)) demo_config world0)
     = True"
proof -
  let ?e = "env_of (chain ''1'' True)"
  have c1: "create_campaign ?e demo_config ''Test Campaign 2'' 50 world0
              = (Inr (Some (6, campaign_c4)), s2_w1 ?e)"
    unfolding s2_w1_def by (rule with_snd) (rule create_campaign_chain)
  have c2: "contribute_to_campaign ?e demo_config campaign_c4 (funding_goal demo_config) (s2_w1 ?e)
              = (Inr True, s2_w2 ?e)"
    unfolding s2_w2_def by (rule with_snd) (rule contribute_chain)
  have c3: "wait_for_campaign_end ?e demo_config campaign_c4 default_max_wait (s2_w2 ?e)
              = (Inr True, s2_w3 ?e)"
    unfolding s2_w3_def by (rule with_snd) (rule wait_chain_succeeded)
  have c4: "create_liquidity_pool ?e demo_config campaign_c4 (s2_w3 ?e) = (True, s2_w4 ?e)"
    unfolding s2_w4_def by (rule with_snd) (rule pool_chain)
  have c5: "get_campaign_token_address ?e demo_config 6 (s2_w4 ?e) = (Some token_70, s2_w5 ?e)"
    unfolding s2_w5_def by (rule with_snd) (rule token_chain)
  have c6: "claim_tokens ?e demo_config campaign_c4 (s2_w5 ?e) = (True, s2_w6 ?e)"
    unfolding s2_w6_def by (rule with_snd) (rule claim_chain)
  have c7: "get_account_address ?e (donor_cast demo_config) (sleep 10 (s2_w6 ?e))
              = (Some ''0xD0'', s2_w7 ?e)"
    unfolding s2_w7_def using account_chain [of "''1''" True] by (intro with_snd) simp
  have b: "fst (get_balance ?e (donor_cast demo_config) token_70 ''0xD0'' (s2_w7 ?e)) = Inr 100"
    by (rule balance_chain)
  have nonempty: "token_70 \<noteq> []"
    by (simp add: token_70_def)
  have "fst (test_scenario_2_success_with_liquidity ?e demo_config world0) = True"
    using scenario_2_result_after_lifecycle
            [where e = ?e and cfg = demo_config and w = world0 and cid = 6 and a = campaign_c4
               and tok = token_70 and donor = "Some ''0xD0''" and balance = 100
               and ?w1.0 = "s2_w1 ?e" and ?w2.0 = "s2_w2 ?e" and ?w3.0 = "s2_w3 ?e"
               and ?w4.0 = "s2_w4 ?e" and ?w5.0 = "s2_w5 ?e" and ?w6.0 = "s2_w6 ?e"
               and ?w7.0 = "s2_w7 ?e"]
          c1 c2 c3 c4 c5 c6 c7 b nonempty
    by simp
  then show ?thesis
    using c1 c6 c7 b swap_test_chain by simp
qed

text \<open>
  A run in which every step through the claim of the tokens succeeds and the client then
  fails to derive the donor's address: the scenario fails.
\<close>

theorem scenario_2_donor_address_counterexample:
  "create_campaign (env_of (chain ''1'' False)) demo_config ''Test Campaign 2'' 50 world0
     = (Inr (Some (6, campaign_c4)), s2_w1 (env_of (chain ''1'' False)))
   \<and> contribute_to_campaign (env_of (chain ''1'' False)) demo_config campaign_c4
        (funding_goal demo_config) (s2_w1 (env_of (chain ''1'' False)))
     = (Inr True, s2_w2 (env_of (chain ''1'' False)))
   \<and> wait_for_campaign_end (env_of (chain ''1'' False)) demo_config campaign_c4 default_max_wait
        (s2_w2 (env_of (chain ''1'' False)))
     = (Inr True, s2_w3 (env_of (chain ''1'' False)))
   \<and> create_liquidity_pool (env_of (chain ''1'' False)) demo_config campaign_c4
        (s2_w3 (env_of (chain ''1'' False)))
     = (True, s2_w4 (env_of (chain ''1'' False)))
   \<and> get_campaign_token_address (env_of (chain ''1'' False)) demo_config 6
        (s2_w4 (env_of (chain ''1'' False)))
     = (Some token_70, s2_w5 (env_of (chain ''1'' False)))
   \<and> claim_tokens (env_of (chain ''1'' False)) demo_config campaign_c4
        (s2_w5 (env_of (chain ''1'' False)))
     = (True, s2_w6 (env_of (chain ''1'' False)))
   \<and> get_account_address (env_of (chain ''1'' False)) (donor_cast demo_config)
        (sleep 10 (s2_w6 (env_of (chain ''1'' False))))
     = (None, s2_w7 (env_of (chain ''1'' False)))
   \<and> test_scenario_2_success_with_liquidity (env_of (chain ''1'' False)) demo_config world0
     = (False, s2_w7 (env_of (chain ''1'' False)))"
proof -
  let ?e = "env_of (chain ''1'' False)"
  have c1: "create_campaign ?e demo_config ''Test Campaign 2'' 50 world0
              = (Inr (Some (6, campaign_c4)), s2_w1 ?e)"
    unfolding s2_w1_def by (rule with_snd) (rule create_campaign_chain)
  have c2: "contribute_to_campaign ?e demo_config campaign_c4 (funding_goal demo_config) (s2_w1 ?e)
              = (Inr True, s2_w2 ?e)"
    unfolding s2_w2_def by (rule with_snd) (rule contribute_chain)
  have c3: "wait_for_campaign_end ?e demo_config campaign_c4 default_max_wait (s2_w2 ?e)
              = (Inr True, s2_w3 ?e)"
    unfolding s2_w3_def by (rule with_snd) (rule wait_chain_succeeded)
  have c4: "create_liquidity_pool ?e demo_config campaign_c4 (s2_w3 ?e) = (True, s2_w4 ?e)"
    unfolding s2_w4_def by (rule with_snd) (rule pool_chain)
  have c5: "get_campaign_token_address ?e demo_config 6 (s2_w4 ?e) = (Some token_70, s2_w5 ?e)"
    unfolding s2_w5_def by (rule with_snd) (rule token_chain)
  have c6: "claim_tokens ?e demo_config campaign_c4 (s2_w5 ?e) = (True, s2_w6 ?e)"
    unfolding s2_w6_def by (rule with_snd) (rule claim_chain)
  have c7: "get_account_address ?e (donor_cast demo_config) (sleep 10 (s2_w6 ?e))
              = (None, s2_w7 ?e)"
    unfolding s2_w7_def using account_chain [of "''1''" False] by (intro with_snd) simp
  have nonempty: "token_70 \<noteq> []"
    by (simp add: token_70_def)
  have "test_scenario_2_success_with_liquidity ?e demo_config world0
          = swap_probe ?e demo_config token_70 (s2_w6 ?e)"
    using c1 c2 c3 c4 c5 nonempty c6 by (rule scenario_2_lifecycle)
  also have "\<dots> = (False, s2_w7 ?e)"
    using c7 by (rule swap_probe_no_address) simp
  finally show ?thesis
    using c1 c2 c3 c4 c5 c6 c7 by simp
qed

end
